theory Spec2Isabelle
  imports Complex_Main
begin

section \<open>JavaScript numbers\<close>

text \<open>
  A JavaScript \<open>number\<close> is a finite value, one of the two infinities, or NaN. Finite
  values are modelled as exact reals: rounding of double precision and the sign of zero
  are outside this embedding. Byte counts and part sizes are integers.
\<close>

datatype number = Finite real | PosInfinity | NegInfinity | NaN

text \<open>The operator \<open>/\<close> on two finite operands.\<close>

definition js_div :: "real \<Rightarrow> real \<Rightarrow> number" where
  "js_div a b =
     (if b = 0 then (if a = 0 then NaN else if 0 < a then PosInfinity else NegInfinity)
      else Finite (a / b))"



text \<open>The operator \<open><\<close>: every comparison with NaN is false.\<close>

fun js_lt :: "number \<Rightarrow> number \<Rightarrow> bool" where
  "js_lt (Finite a) (Finite b) = (a < b)"
| "js_lt NaN _ = False"
| "js_lt _ NaN = False"
| "js_lt PosInfinity _ = False"
| "js_lt _ PosInfinity = True"
| "js_lt _ NegInfinity = False"
| "js_lt NegInfinity _ = True"

fun Math_ceil :: "number \<Rightarrow> number" where
  "Math_ceil (Finite r) = Finite (of_int \<lceil>r\<rceil>)"
| "Math_ceil n = n"





section \<open>Progress tracker: time remaining\<close>




section \<open>Files, blobs and the chunker\<close>

text \<open>
  A \<open>File\<close> of the browser: its name, its bytes and its MIME type. Its \<open>size\<close> is the
  number of its bytes.
\<close>

record File =
  file_name :: string
  file_data :: string
  file_type :: string

definition file_size :: "File \<Rightarrow> int" where
  "file_size f = int (length (file_data f))"

record Blob =
  blob_data :: string
  blob_type :: string

text \<open>
  \<open>Blob.slice(start, end, contentType)\<close> of the File API, which is not code of this
  repository: a negative offset counts from the end, both offsets are clamped to the
  size, and the result holds the bytes from the first offset up to the second.
\<close>

definition slice :: "File \<Rightarrow> int \<Rightarrow> int \<Rightarrow> string \<Rightarrow> Blob" where
  "slice f start stop contentType =
     (let size = file_size f;
          relativeStart = (if start < 0 then max (size + start) 0 else min start size);
          relativeEnd = (if stop < 0 then max (size + stop) 0 else min stop size);
          span = max (relativeEnd - relativeStart) 0
      in \<lparr>blob_data = take (nat span) (drop (nat relativeStart) (file_data f)),
          blob_type = contentType\<rparr>)"

text \<open>
  The object types that carry a part number: \<open>PartInfo\<close> (its optional \<open>etag\<close> is never
  set by the code modelled here), \<open>PartEtag\<close>, the receipt of a part, and the entries of
  \<open>presignedUrls\<close>. They share the field \<open>partNumber\<close>.
\<close>

record PartNumbered =
  partNumber :: int

record PartInfo = PartNumbered +
  blob :: Blob

record PartEtag = PartNumbered +
  etag :: string

record PresignedUrl = PartNumbered +
  url :: string

text \<open>
  \<open>UploadService.splitFileIntoChunks\<close>. The \<open>for\<close> loop runs while \<open>i < totalChunks\<close>,
  where \<open>totalChunks\<close> is a JavaScript number that may be infinite or NaN; the loop that
  never ends has the value \<open>None\<close>.
\<close>

partial_function (option) splitFileIntoChunks_loop ::
  "File \<Rightarrow> int \<Rightarrow> number \<Rightarrow> nat \<Rightarrow> PartInfo list \<Rightarrow> PartInfo list option" where
  "splitFileIntoChunks_loop file partSize totalChunks i chunks =
     (if js_lt (Finite (real i)) totalChunks then
        (let start = int i * partSize;
             stop = min (start + partSize) (file_size file)
         in splitFileIntoChunks_loop file partSize totalChunks (i + 1)
              (chunks @ [\<lparr>partNumber = int i + 1,
                          blob = slice file start stop (file_type file)\<rparr>]))
      else Some chunks)"

declare splitFileIntoChunks_loop.simps [code]

definition splitFileIntoChunks :: "File \<Rightarrow> int \<Rightarrow> PartInfo list option" where
  "splitFileIntoChunks file partSize =
     (let totalChunks = Math_ceil (js_div (of_int (file_size file)) (of_int partSize))
      in splitFileIntoChunks_loop file partSize totalChunks 0 [])"

text \<open>
  The byte range of a part as the data model of the specification states it:
  \<open>start = (partNumber - 1) * partSize\<close> and \<open>end = min (start + partSize) totalSize\<close>.
  \<open>ModulesComponent.uploadBatch\<close> computes the same two values from the part number.
\<close>

definition byteRangeStart :: "int \<Rightarrow> int \<Rightarrow> int" where
  "byteRangeStart partSize pn = (pn - 1) * partSize"

definition byteRangeEnd :: "int \<Rightarrow> int \<Rightarrow> int \<Rightarrow> int" where
  "byteRangeEnd totalSize partSize pn = min (byteRangeStart partSize pn + partSize) totalSize"

text \<open>The chunk that the loop of \<open>splitFileIntoChunks\<close> appends in its round \<open>i\<close>.\<close>

definition chunkAt :: "File \<Rightarrow> int \<Rightarrow> nat \<Rightarrow> PartInfo" where
  "chunkAt file partSize i =
     \<lparr>partNumber = int i + 1,
      blob = slice file (int i * partSize)
               (min (int i * partSize + partSize) (file_size file)) (file_type file)\<rparr>"

section \<open>The remote service\<close>

text \<open>
  An error value of JavaScript: an \<open>HttpErrorResponse\<close> with the optional \<open>message\<close> of
  its body and its \<open>statusText\<close>, or a plain \<open>Error\<close> with its message.
\<close>

datatype jsError = HttpErrorResponse "string option" string | Error string

text \<open>
  The responses of the remote service, with the fields that the client reads.
\<close>

record InitiateUploadResponse =
  responseUploadId :: string
  partSizeBytes :: int

record BatchProgress =
  completedParts :: int
  totalParts :: int
  percentComplete :: real
  isComplete :: bool

record BatchUploadResponse =
  batchProgress :: BatchProgress
  presignedUrls :: "PresignedUrl list"

text \<open>
  What a run does, in the order in which it does it: the five requests of
  \<open>FileUploadService\<close> (the bucket and the storage path of the initiation are constants),
  a wait of \<open>setTimeout\<close> in milliseconds, the report on the console that an attempt to
  upload a part failed (part number and number of the attempt), and a write to
  \<open>uploadState.uploadedSize\<close>.
\<close>

datatype event =
    Initiate string int string
  | NextBatch string "PartEtag list"
  | Put string Blob
  | Complete string "PartEtag list"
  | Abort string
  | Sleep int
  | FailedAttempt int nat
  | UploadedSize int

text \<open>
  The environment of a run. The remote service answers a request by a transport error
  or by a response; what it answers may depend on everything that happened before, so
  each answer is a function of the events so far, the request being the last of them. For
  a \<open>PUT\<close> the answer is the value of the \<open>ETag\<close> header, if there is one. The user may
  press the pause button while the client waits; \<open>pauseClicked\<close> tells whether that
  happens during the wait that ends the given events.
\<close>

record Env =
  initiateReply :: "event list \<Rightarrow> jsError + InitiateUploadResponse"
  batchReply :: "event list \<Rightarrow> jsError + BatchUploadResponse"
  putReply :: "event list \<Rightarrow> jsError + string option"
  completeReply :: "event list \<Rightarrow> jsError + string"
  abortReply :: "event list \<Rightarrow> jsError + unit"
  pauseClicked :: "event list \<Rightarrow> bool"

section \<open>FileUploadService\<close>

text \<open>
  Each function sends one request and returns the answer with the extended events. Both
  callers of \<open>initiateFileUpload\<close> pass a content type that is not empty, so its fallback
  \<open>getFileType\<close> is never reached and is not modelled.
\<close>

definition initiateFileUpload ::
  "Env \<Rightarrow> event list \<Rightarrow> string \<Rightarrow> int \<Rightarrow> string
     \<Rightarrow> (jsError + InitiateUploadResponse) \<times> event list" where
  "initiateFileUpload env evs fname fsize contentType =
     (let evs' = evs @ [Initiate fname fsize contentType]
      in (initiateReply env evs', evs'))"

definition getNextBatchUrls ::
  "Env \<Rightarrow> event list \<Rightarrow> string \<Rightarrow> PartEtag list
     \<Rightarrow> (jsError + BatchUploadResponse) \<times> event list" where
  "getNextBatchUrls env evs uid partEtags =
     (let evs' = evs @ [NextBatch uid partEtags]
      in (batchReply env evs', evs'))"

definition completeUpload ::
  "Env \<Rightarrow> event list \<Rightarrow> string \<Rightarrow> PartEtag list \<Rightarrow> (jsError + string) \<times> event list" where
  "completeUpload env evs uid allETags =
     (let evs' = evs @ [Complete uid allETags]
      in (completeReply env evs', evs'))"

definition abortUploadRequest ::
  "Env \<Rightarrow> event list \<Rightarrow> string \<Rightarrow> (jsError + unit) \<times> event list" where
  "abortUploadRequest env evs uid =
     (let evs' = evs @ [Abort uid]
      in (abortReply env evs', evs'))"

text \<open>
  The regular expression \<open>^"(.*)"$\<close> of \<open>uploadPart\<close> matches a string that starts and
  ends with a double quote (two different characters of the string) and has no line
  terminator in between, the dot matching anything else; \<open>replace\<close> then yields what is
  between the two quotes, and yields the string itself when there is no match.
\<close>

definition isLineTerminator :: "char \<Rightarrow> bool" where
  "isLineTerminator c = (c = CHR 0x0A \<or> c = CHR 0x0D)"

definition replaceQuotes :: "string \<Rightarrow> string" where
  "replaceQuotes tag =
     (if 2 \<le> length tag \<and> hd tag = CHR 0x22 \<and> last tag = CHR 0x22
         \<and> list_all (\<lambda>c. \<not> isLineTerminator c) (butlast (tl tag))
      then butlast (tl tag) else tag)"

text \<open>
  The callback that \<open>uploadPart\<close> maps over the response: \<open>headers.get('ETag')\<close> is
  \<open>null\<close> or a string, and \<open>!etag\<close> holds for \<open>null\<close> and for the empty string.
\<close>

definition uploadPart_map :: "string option \<Rightarrow> jsError + string" where
  "uploadPart_map etagHeader =
     (case etagHeader of
        None \<Rightarrow> Inl (Error ''No ETag found in response headers'')
      | Some tag \<Rightarrow>
          if tag = [] then Inl (Error ''No ETag found in response headers'')
          else Inr (replaceQuotes tag))"

definition uploadPart ::
  "Env \<Rightarrow> event list \<Rightarrow> string \<Rightarrow> Blob \<Rightarrow> (jsError + string) \<times> event list" where
  "uploadPart env evs u b =
     (let evs' = evs @ [Put u b]
      in (case putReply env evs' of
            Inl err \<Rightarrow> Inl err
          | Inr etagHeader \<Rightarrow> uploadPart_map etagHeader, evs'))"

section \<open>ModulesComponent\<close>

record UploadState =
  uploadId :: "string option"
  fileName :: string
  fileSize :: int
  uploadedSize :: int
  speed :: string
  timeRemaining :: string

record ModulesComponent =
  uploading :: bool
  progress :: real
  errorMessage :: "string option"
  isPaused :: bool
  selectedFile :: "File option"
  uploadState :: "UploadState option"

text \<open>The values of the fields of a new component.\<close>

definition initialComponent :: ModulesComponent where
  "initialComponent =
     \<lparr>uploading = False, progress = 0, errorMessage = None, isPaused = False,
      selectedFile = None, uploadState = None\<rparr>"

definition resetUploadState :: "ModulesComponent \<Rightarrow> ModulesComponent" where
  "resetUploadState st =
     st\<lparr>uploading := False, isPaused := False, progress := 0, selectedFile := None,
        uploadState := None, errorMessage := None\<rparr>"

definition handleFileSelection :: "ModulesComponent \<Rightarrow> File \<Rightarrow> ModulesComponent" where
  "handleFileSelection st file =
     st\<lparr>selectedFile := Some file,
        uploadState := Some \<lparr>uploadId = None, fileName = file_name file,
          fileSize = file_size file, uploadedSize = 0, speed = ''0 KB'',
          timeRemaining = ''Calculating...''\<rparr>\<rparr>"

definition pauseUpload :: "ModulesComponent \<Rightarrow> ModulesComponent" where
  "pauseUpload st = st\<lparr>isPaused := True\<rparr>"

text \<open>
  While the component waits for a request or a timer, the user may press pause, which
  runs \<open>pauseUpload\<close>.
\<close>

definition observePause :: "Env \<Rightarrow> ModulesComponent \<Rightarrow> event list \<Rightarrow> ModulesComponent" where
  "observePause env st evs = (if pauseClicked env evs then pauseUpload st else st)"

definition maxRetries :: nat where
  "maxRetries = 3"

text \<open>
  The \<open>while\<close> loop of \<open>ModulesComponent.uploadBatch\<close> for one presigned URL. The result
  is the flag \<open>success\<close> with the receipts, the component and the events.
\<close>

function uploadBatch_retry ::
  "Env \<Rightarrow> File \<Rightarrow> int \<Rightarrow> int \<Rightarrow> string \<Rightarrow> nat \<Rightarrow> PartEtag list \<Rightarrow> ModulesComponent
     \<Rightarrow> event list \<Rightarrow> bool \<times> PartEtag list \<times> ModulesComponent \<times> event list" where
  "uploadBatch_retry env file partSize pn u retryCount currentBatchETags st evs =
     (if retryCount < maxRetries then
        (let start = (pn - 1) * partSize;
             stop = min (start + partSize) (file_size file);
             b = slice file start stop (file_type file);
             (response, evs1) = uploadPart env evs u b;
             st1 = observePause env st evs1
         in case response of
              Inr e \<Rightarrow>
                (True, currentBatchETags @ [\<lparr>partNumber = pn, etag = e\<rparr>], st1, evs1)
            | Inl err \<Rightarrow>
                (let retryCount' = retryCount + 1;
                     evs2 = evs1 @ [FailedAttempt pn retryCount']
                 in if retryCount' < maxRetries then
                      (let delay = min (1000 * 2 ^ retryCount') 10000;
                           evs3 = evs2 @ [Sleep delay];
                           st2 = observePause env st1 evs3
                       in uploadBatch_retry env file partSize pn u retryCount'
                            currentBatchETags st2 evs3)
                    else uploadBatch_retry env file partSize pn u retryCount'
                           currentBatchETags st1 evs2))
      else (False, currentBatchETags, st, evs))"
  by pat_completeness auto
termination
  by (relation "measure (\<lambda>(env, file, partSize, pn, u, retryCount, r). maxRetries - retryCount)")
    (auto simp: maxRetries_def)

declare uploadBatch_retry.simps [simp del]

text \<open>The \<open>for\<close> loop of \<open>ModulesComponent.uploadBatch\<close> over the presigned URLs.\<close>

fun uploadBatch_loop ::
  "Env \<Rightarrow> File \<Rightarrow> int \<Rightarrow> PresignedUrl list \<Rightarrow> PartEtag list \<Rightarrow> ModulesComponent
     \<Rightarrow> event list \<Rightarrow> PartEtag list \<times> ModulesComponent \<times> event list" where
  "uploadBatch_loop env file partSize [] currentBatchETags st evs =
     (currentBatchETags, st, evs)"
| "uploadBatch_loop env file partSize (p # rest) currentBatchETags st evs =
     (let (success, etags1, st1, evs1) =
            uploadBatch_retry env file partSize (partNumber p) (url p) 0 currentBatchETags st evs;
          (st2, evs2) =
            (case uploadState st1 of
               Some us \<Rightarrow>
                 if success then
                   (let size = int (length etags1) * partSize;
                        v = min size (fileSize us)
                    in (st1\<lparr>uploadState := Some (us\<lparr>uploadedSize := v\<rparr>)\<rparr>,
                        evs1 @ [UploadedSize v]))
                 else (st1, evs1)
             | None \<Rightarrow> (st1, evs1))
      in uploadBatch_loop env file partSize rest etags1 st2 evs2)"

definition ModulesComponent_uploadBatch ::
  "Env \<Rightarrow> File \<Rightarrow> int \<Rightarrow> PresignedUrl list \<Rightarrow> ModulesComponent \<Rightarrow> event list
     \<Rightarrow> PartEtag list \<times> ModulesComponent \<times> event list" where
  "ModulesComponent_uploadBatch env file partSize urls st evs =
     uploadBatch_loop env file partSize urls [] st evs"

text \<open>
  \<open>ModulesComponent.abortUpload\<close>. The condition \<open>this.uploadState?.uploadId\<close> holds when
  there is an upload state whose \<open>uploadId\<close> is defined and not the empty string. The
  answer to the abort request is only written to the console, on both outcomes.
\<close>

definition ModulesComponent_abortUpload ::
  "Env \<Rightarrow> ModulesComponent \<Rightarrow> event list \<Rightarrow> ModulesComponent \<times> event list" where
  "ModulesComponent_abortUpload env st evs =
     (case uploadState st of
        Some us \<Rightarrow>
          (case uploadId us of
             Some uid \<Rightarrow>
               if uid \<noteq> [] then
                 (let (reply, evs1) = abortUploadRequest env evs uid;
                      st1 = observePause env st evs1
                  in (resetUploadState st1, evs1))
               else (resetUploadState st, evs)
           | None \<Rightarrow> (resetUploadState st, evs))
      | None \<Rightarrow> (resetUploadState st, evs))"

text \<open>
  How the \<open>while\<close> loop of \<open>ModulesComponent.uploadFile\<close> is left: by its condition, with
  the receipts of all waves; by the \<open>return\<close> of its \<open>catch\<close> block when the component is
  paused; or by the error that its \<open>catch\<close> block throws again.
\<close>

datatype loopExit = LoopFinished "PartEtag list" | LoopReturned | LoopThrew jsError

text \<open>
  The \<open>while\<close> loop of \<open>ModulesComponent.uploadFile\<close>. \<open>uploadBatch\<close> throws nothing, so
  the only error inside the \<open>try\<close> block is a failed request for the next batch. The
  loop runs for as long as the remote service reports that the upload is not complete;
  a run that never ends has the value \<open>None\<close>.
\<close>

partial_function (option) uploadFile_loop ::
  "Env \<Rightarrow> File \<Rightarrow> int \<Rightarrow> string \<Rightarrow> BatchUploadResponse \<Rightarrow> PartEtag list \<Rightarrow> bool
     \<Rightarrow> ModulesComponent \<Rightarrow> event list \<Rightarrow> (loopExit \<times> ModulesComponent \<times> event list) option"
  where
  "uploadFile_loop env file partSize uid prog allUploadedETags isUploadComplete st evs =
     (if \<not> isUploadComplete \<and> \<not> isPaused st then
        (case ModulesComponent_uploadBatch env file partSize (presignedUrls prog) st evs of
           (currentBatchETags, st1, evs1) \<Rightarrow>
             (case getNextBatchUrls env evs1 uid (allUploadedETags @ currentBatchETags) of
                (Inl err, evs2) \<Rightarrow>
                  (if isPaused (observePause env st1 evs2)
                   then Some (LoopReturned, observePause env st1 evs2, evs2)
                   else Some (LoopThrew err, observePause env st1 evs2, evs2))
              | (Inr prog', evs2) \<Rightarrow>
                  uploadFile_loop env file partSize uid prog'
                    (allUploadedETags @ currentBatchETags)
                    (isComplete (batchProgress prog'))
                    ((observePause env st1 evs2)
                       \<lparr>progress := percentComplete (batchProgress prog')\<rparr>)
                    evs2))
      else Some (LoopFinished allUploadedETags, st, evs))"

declare uploadFile_loop.simps [code]

text \<open>
  The outer \<open>catch\<close> block of \<open>ModulesComponent.uploadFile\<close>: it sets the error message
  and, if the local variable \<open>uploadId\<close> is set and not empty, sends an abort request,
  whose own failure is only written to the console.
\<close>

definition uploadFile_catch ::
  "Env \<Rightarrow> jsError \<Rightarrow> string option \<Rightarrow> ModulesComponent \<Rightarrow> event list
     \<Rightarrow> ModulesComponent \<times> event list" where
  "uploadFile_catch env err uploadIdVar st evs =
     (let st1 = st\<lparr>errorMessage := Some
            (case err of
               HttpErrorResponse msg statusText \<Rightarrow>
                 ''Upload failed: '' @
                   (case msg of Some m \<Rightarrow> if m \<noteq> [] then m else statusText
                    | None \<Rightarrow> statusText)
             | Error m \<Rightarrow> m)\<rparr>
      in case uploadIdVar of
           Some uid \<Rightarrow>
             if uid \<noteq> [] then
               (let (reply, evs1) = abortUploadRequest env evs uid
                in (observePause env st1 evs1, evs1))
             else (st1, evs)
         | None \<Rightarrow> (st1, evs))"

text \<open>The \<open>finally\<close> block of \<open>ModulesComponent.uploadFile\<close>.\<close>

definition uploadFile_finally :: "ModulesComponent \<Rightarrow> ModulesComponent" where
  "uploadFile_finally st = (if \<not> isPaused st then st\<lparr>uploading := False\<rparr> else st)"

text \<open>An error that reaches the outer \<open>catch\<close> block: that block runs, then the \<open>finally\<close> block.\<close>

definition uploadFile_failed ::
  "Env \<Rightarrow> jsError \<Rightarrow> string option \<Rightarrow> ModulesComponent \<Rightarrow> event list
     \<Rightarrow> (ModulesComponent \<times> event list) option" where
  "uploadFile_failed env err uploadIdVar st evs =
     (case uploadFile_catch env err uploadIdVar st evs of
        (st1, evs1) \<Rightarrow> Some (uploadFile_finally st1, evs1))"

text \<open>
  \<open>ModulesComponent.uploadFile\<close>. The result is the component and the events after the
  run, or \<open>None\<close> for a run that never ends.
\<close>

definition ModulesComponent_uploadFile ::
  "Env \<Rightarrow> File \<Rightarrow> ModulesComponent \<Rightarrow> event list \<Rightarrow> (ModulesComponent \<times> event list) option"
  where
  "ModulesComponent_uploadFile env file st evs =
     (if isPaused st then Some (st, evs)
      else
        (case initiateFileUpload env evs (file_name file) (file_size file)
                (if file_type file = [] then ''application/octet-stream'' else file_type file) of
           (Inl err, evs1) \<Rightarrow>
             uploadFile_failed env err None
               (observePause env (st\<lparr>uploading := True, errorMessage := None\<rparr>) evs1) evs1
         | (Inr initResponse, evs1) \<Rightarrow>
             (let st1 = observePause env (st\<lparr>uploading := True, errorMessage := None\<rparr>) evs1;
                  us = (case uploadState st1 of
                          None \<Rightarrow> \<lparr>uploadId = None, fileName = file_name file,
                                     fileSize = file_size file, uploadedSize = 0,
                                     speed = ''0 KB'', timeRemaining = ''Calculating...''\<rparr>
                        | Some us0 \<Rightarrow> us0);
                  uid = responseUploadId initResponse;
                  st2 = st1\<lparr>uploadState := Some (us\<lparr>uploadId := Some uid\<rparr>)\<rparr>
              in if uid = [] then
                   uploadFile_failed env (Error ''Upload ID is missing'') (Some uid) st2 evs1
                 else
                   (case getNextBatchUrls env evs1 uid [] of
                      (Inl err, evs2) \<Rightarrow>
                        uploadFile_failed env err (Some uid) (observePause env st2 evs2) evs2
                    | (Inr prog, evs2) \<Rightarrow>
                        (case uploadFile_loop env file (partSizeBytes initResponse) uid prog []
                                False (observePause env st2 evs2) evs2 of
                           None \<Rightarrow> None
                         | Some (LoopReturned, st3, evs3) \<Rightarrow> Some (uploadFile_finally st3, evs3)
                         | Some (LoopThrew err, st3, evs3) \<Rightarrow>
                             uploadFile_failed env err (Some uid) st3 evs3
                         | Some (LoopFinished allUploadedETags, st3, evs3) \<Rightarrow>
                             if \<not> isPaused st3 then
                               (case completeUpload env evs3 uid allUploadedETags of
                                  (Inl err, evs4) \<Rightarrow>
                                    uploadFile_failed env err (Some uid)
                                      (observePause env st3 evs4) evs4
                                | (Inr fileUrl, evs4) \<Rightarrow>
                                    Some (uploadFile_finally
                                            (resetUploadState (observePause env st3 evs4)),
                                          evs4))
                             else Some (uploadFile_finally st3, evs3))))))"

definition resumeUpload ::
  "Env \<Rightarrow> ModulesComponent \<Rightarrow> event list \<Rightarrow> (ModulesComponent \<times> event list) option" where
  "resumeUpload env st evs =
     (case selectedFile (st\<lparr>isPaused := False\<rparr>) of
        Some file \<Rightarrow> ModulesComponent_uploadFile env file (st\<lparr>isPaused := False\<rparr>) evs
      | None \<Rightarrow> Some (st\<lparr>isPaused := False\<rparr>, evs))"

section \<open>UploadService\<close>

text \<open>
  \<open>UploadService.uploadBatch\<close>: every part of the wave is uploaded once, with the chunk
  that \<open>chunks.find\<close> returns for its number; a part without a chunk and a part whose
  upload fails are rejected, and the receipts of the others are returned in the order of
  the wave. The requests are sent in that order; the uploads of one wave run in parallel,
  which this embedding does not show.
\<close>

fun UploadService_uploadBatch ::
  "Env \<Rightarrow> PresignedUrl list \<Rightarrow> PartInfo list \<Rightarrow> event list \<Rightarrow> PartEtag list \<times> event list" where
  "UploadService_uploadBatch env [] chunks evs = ([], evs)"
| "UploadService_uploadBatch env (p # parts) chunks evs =
     (case find (\<lambda>c. partNumber c = partNumber p) chunks of
        None \<Rightarrow> UploadService_uploadBatch env parts chunks evs
      | Some chunk \<Rightarrow>
          (case uploadPart env evs (url p) (blob chunk) of
             (Inl err, evs1) \<Rightarrow> UploadService_uploadBatch env parts chunks evs1
           | (Inr e, evs1) \<Rightarrow>
               (case UploadService_uploadBatch env parts chunks evs1 of
                  (successfulUploads, evs2) \<Rightarrow>
                    (\<lparr>partNumber = partNumber p, etag = e\<rparr> # successfulUploads, evs2))))"

text \<open>
  The \<open>while\<close> loop of \<open>UploadService.uploadFile\<close>. The report of the progress to the
  caller reads the clock and has no effect on the requests or on the result; it is left
  out. The loop returns the error of a failed request, or the value of \<open>prevBatchETags\<close>
  when the remote service reports that the upload is complete.
\<close>

partial_function (option) UploadService_uploadFile_loop ::
  "Env \<Rightarrow> string \<Rightarrow> PartInfo list \<Rightarrow> BatchUploadResponse \<Rightarrow> PartEtag list \<Rightarrow> bool
     \<Rightarrow> event list \<Rightarrow> ((jsError + PartEtag list) \<times> event list) option" where
  "UploadService_uploadFile_loop env uid chunks prog prevBatchETags isUploadComplete evs =
     (if \<not> isUploadComplete then
        (case UploadService_uploadBatch env (presignedUrls prog) chunks evs of
           (currentBatchETags, evs1) \<Rightarrow>
             (case getNextBatchUrls env evs1 uid currentBatchETags of
                (Inl err, evs2) \<Rightarrow> Some (Inl err, evs2)
              | (Inr prog', evs2) \<Rightarrow>
                  UploadService_uploadFile_loop env uid chunks prog' currentBatchETags
                    (isComplete (batchProgress prog')) evs2))
      else Some (Inr prevBatchETags, evs))"

declare UploadService_uploadFile_loop.simps [code]

text \<open>The message of the error that the \<open>catch\<close> block of \<open>UploadService.uploadFile\<close> throws.\<close>

definition uploadFailedMessage :: "jsError \<Rightarrow> string" where
  "uploadFailedMessage err =
     (case err of
        HttpErrorResponse msg statusText \<Rightarrow>
          ''Upload failed: '' @
            (case msg of Some m \<Rightarrow> if m \<noteq> [] then m else statusText | None \<Rightarrow> statusText)
      | Error m \<Rightarrow> ''Upload failed due to an unexpected error'')"

text \<open>
  \<open>UploadService.uploadFile\<close>: the promise is fulfilled with the file URL (\<open>Inr\<close>) or
  rejected with an error message (\<open>Inl\<close>); \<open>None\<close> is a run that never ends.
\<close>

definition UploadService_uploadFile ::
  "Env \<Rightarrow> File \<Rightarrow> event list \<Rightarrow> ((string + string) \<times> event list) option" where
  "UploadService_uploadFile env file evs =
     (case initiateFileUpload env evs (file_name file) (file_size file)
             (if file_type file = [] then ''application/octet-stream'' else file_type file) of
        (Inl err, evs1) \<Rightarrow> Some (Inl (uploadFailedMessage err), evs1)
      | (Inr initResponse, evs1) \<Rightarrow>
          (case splitFileIntoChunks file (partSizeBytes initResponse) of
             None \<Rightarrow> None
           | Some chunks \<Rightarrow>
               (case getNextBatchUrls env evs1 (responseUploadId initResponse) [] of
                  (Inl err, evs2) \<Rightarrow> Some (Inl (uploadFailedMessage err), evs2)
                | (Inr prog, evs2) \<Rightarrow>
                    (case UploadService_uploadFile_loop env (responseUploadId initResponse)
                            chunks prog [] False evs2 of
                       None \<Rightarrow> None
                     | Some (Inl err, evs3) \<Rightarrow> Some (Inl (uploadFailedMessage err), evs3)
                     | Some (Inr prevBatchETags, evs3) \<Rightarrow>
                         (case completeUpload env evs3 (responseUploadId initResponse)
                                 prevBatchETags of
                            (Inl err, evs4) \<Rightarrow> Some (Inl (uploadFailedMessage err), evs4)
                          | (Inr fileUrl, evs4) \<Rightarrow> Some (Inr fileUrl, evs4))))))"

section \<open>Auxiliary definitions for the statements\<close>

text \<open>
  The outcome of one attempt to upload a part, as \<open>uploadPart\<close> computes it from the
  answer to the \<open>PUT\<close> that ends the given events.
\<close>

definition putOutcome :: "Env \<Rightarrow> event list \<Rightarrow> jsError + string" where
  "putOutcome env evs =
     (case putReply env evs of Inl err \<Rightarrow> Inl err | Inr h \<Rightarrow> uploadPart_map h)"

text \<open>Events that are attempts, and reports that the last allowed attempt failed.\<close>

fun isPut :: "event \<Rightarrow> bool" where
  "isPut (Put u b) = True"
| "isPut _ = False"

fun isExhausted :: "event \<Rightarrow> bool" where
  "isExhausted (FailedAttempt pn k) = (k = maxRetries)"
| "isExhausted _ = False"

text \<open>
  A remote service that gives the same answer to every \<open>PUT\<close> and refuses every other
  request, with a user who never presses pause.
\<close>

definition envWithPut :: "(jsError + string option) \<Rightarrow> Env" where
  "envWithPut r =
     \<lparr>initiateReply = (\<lambda>evs. Inl (HttpErrorResponse None ''Service Unavailable'')),
      batchReply = (\<lambda>evs. Inl (HttpErrorResponse None ''Service Unavailable'')),
      putReply = (\<lambda>evs. r),
      completeReply = (\<lambda>evs. Inl (HttpErrorResponse None ''Service Unavailable'')),
      abortReply = (\<lambda>evs. Inl (HttpErrorResponse None ''Service Unavailable'')),
      pauseClicked = (\<lambda>evs. False)\<rparr>"

text \<open>
  A remote service whose \<open>PUT\<close> fails until two attempts have failed and then answers
  with the token \<open>e1\<close>.
\<close>

definition envFailingTwice :: Env where
  "envFailingTwice =
     (envWithPut (Inr None))
       \<lparr>putReply := (\<lambda>evs. if length (filter isPut evs) < 3
                             then Inl (HttpErrorResponse None ''Service Unavailable'')
                             else Inr (Some ''e1''))\<rparr>"

text \<open>A remote service that accepts an abort request and refuses every other request.\<close>

definition envAbortSucceeds :: Env where
  "envAbortSucceeds = (envWithPut (Inr None))\<lparr>abortReply := (\<lambda>evs. Inr ())\<rparr>"

text \<open>
  A remote service for the examples. It names the sessions \<open>u1\<close> and \<open>u2\<close>, in the order
  of the initiations, and announces the part size \<open>ps\<close>. To the \<open>k\<close>-th request for a batch
  of a session it offers the \<open>k\<close>-th of the given waves, and it reports completion once all
  waves have been offered. The token of a part is \<open>etag-\<close> followed by the URL it was put
  to. The user presses pause during the wait that ends the \<open>pauseAt\<close>-th event, if given.
\<close>

fun isInitiate :: "event \<Rightarrow> bool" where
  "isInitiate (Initiate n s t) = True"
| "isInitiate _ = False"

fun isNextBatchFor :: "string \<Rightarrow> event \<Rightarrow> bool" where
  "isNextBatchFor uid (NextBatch u r) = (u = uid)"
| "isNextBatchFor uid _ = False"

definition waveServer :: "int \<Rightarrow> PresignedUrl list list \<Rightarrow> nat option \<Rightarrow> Env" where
  "waveServer ps waves pauseAt =
     \<lparr>initiateReply = (\<lambda>evs. Inr \<lparr>responseUploadId =
                           (if length (filter isInitiate evs) \<le> 1 then ''u1'' else ''u2''),
                         partSizeBytes = ps\<rparr>),
      batchReply = (\<lambda>evs.
        if evs = [] then Inl (HttpErrorResponse None ''Bad Request'')
        else case last evs of
          NextBatch uid r \<Rightarrow>
            (let k = length (filter (isNextBatchFor uid) evs) - 1
             in Inr \<lparr>batchProgress =
                       \<lparr>completedParts = int (length (concat (take k waves))),
                        totalParts = int (length (concat waves)),
                        percentComplete = (if k < length waves then 0 else 100),
                        isComplete = (\<not> k < length waves)\<rparr>,
                     presignedUrls = (if k < length waves then waves ! k else [])\<rparr>)
        | _ \<Rightarrow> Inl (HttpErrorResponse None ''Bad Request'')),
      putReply = (\<lambda>evs.
        if evs = [] then Inl (HttpErrorResponse None ''Bad Request'')
        else case last evs of
          Put u b \<Rightarrow> Inr (Some (''etag-'' @ u))
        | _ \<Rightarrow> Inl (HttpErrorResponse None ''Bad Request'')),
      completeReply = (\<lambda>evs. Inr ''https://files.example/f''),
      abortReply = (\<lambda>evs. Inr ()),
      pauseClicked = (\<lambda>evs. Some (length evs) = pauseAt)\<rparr>"

text \<open>The values written to \<open>uploadState.uploadedSize\<close>, in the order of the writes.\<close>

fun uploadedSizes :: "event list \<Rightarrow> int list" where
  "uploadedSizes [] = []"
| "uploadedSizes (UploadedSize v # evs) = v # uploadedSizes evs"
| "uploadedSizes (e # evs) = uploadedSizes evs"

text \<open>The files and the waves of the examples.\<close>

definition fileABCD :: File where
  "fileABCD = \<lparr>file_name = ''a.bin'', file_data = ''abcd'', file_type = ''x''\<rparr>"

definition fileABCDEFGH :: File where
  "fileABCDEFGH = \<lparr>file_name = ''b.bin'', file_data = ''abcdefgh'', file_type = ''x''\<rparr>"

definition twoWavesOfOne :: "PresignedUrl list list" where
  "twoWavesOfOne =
     [ [\<lparr>partNumber = 1, url = ''p1''\<rparr>], [\<lparr>partNumber = 2, url = ''p2''\<rparr>] ]"

definition twoWavesOfTwo :: "PresignedUrl list list" where
  "twoWavesOfTwo =
     [ [\<lparr>partNumber = 1, url = ''p1''\<rparr>, \<lparr>partNumber = 2, url = ''p2''\<rparr>],
       [\<lparr>partNumber = 3, url = ''p3''\<rparr>, \<lparr>partNumber = 4, url = ''p4''\<rparr>] ]"

section \<open>Properties of the time-remaining formatter\<close>














section \<open>Properties of the chunker\<close>

lemma loop_finite:
  "splitFileIntoChunks_loop file ps (Finite (of_int n)) i chunks
     = Some (chunks @ map (chunkAt file ps) [i..<nat n])"
proof (induction "nat n - i" arbitrary: i chunks)
  case 0
  then have "\<not> real i < of_int n" by (simp add: not_less)
  moreover have "[i..<nat n] = []" using 0 by simp
  ultimately show ?case
    by (subst splitFileIntoChunks_loop.simps) simp
next
  case (Suc m)
  then have lt: "i < nat n" by simp
  then have c: "real i < of_int n" by linarith
  have m: "m = nat n - Suc i" using Suc.hyps(2) by simp
  have u: "[i..<nat n] = i # [Suc i..<nat n]" using lt by (simp add: upt_conv_Cons)
  show ?case
    by (subst splitFileIntoChunks_loop.simps) (simp add: c Suc.hyps(1) [OF m] u chunkAt_def Let_def)
qed

lemma loop_PosInfinity_aux:
  assumes "splitFileIntoChunks_loop file ps tc i chunks = Some y"
  shows "tc \<noteq> PosInfinity"
proof (rule splitFileIntoChunks_loop.raw_induct
         [where P = "\<lambda>fl ps tc i chunks y. tc \<noteq> PosInfinity", OF _ assms])
  fix f fl ps tc i chunks y
  assume IH: "\<And>fl ps tc i chunks y. f fl ps tc i chunks = Some y \<Longrightarrow> tc \<noteq> PosInfinity"
    and eq: "(if js_lt (Finite (real i)) tc then
        (let start = int i * ps;
             stop = min (start + ps) (file_size fl)
         in f fl ps tc (i + 1)
              (chunks @ [\<lparr>partNumber = int i + 1,
                          blob = slice fl start stop (file_type fl)\<rparr>]))
      else Some chunks) = Some y"
  show "tc \<noteq> PosInfinity"
  proof
    assume t: "tc = PosInfinity"
    with eq have "f fl ps PosInfinity (i + 1)
       (chunks @ [\<lparr>partNumber = int i + 1, blob = slice fl (int i * ps)
          (min (int i * ps + ps) (file_size fl)) (file_type fl)\<rparr>]) = Some y"
      by (simp add: Let_def)
    from IH [OF this] show False by simp
  qed
qed

lemma loop_PosInfinity: "splitFileIntoChunks_loop file ps PosInfinity i chunks = None"
  using loop_PosInfinity_aux [of "file" ps PosInfinity i chunks] by (cases "splitFileIntoChunks_loop file ps PosInfinity i chunks") auto

lemma loop_not_lt: "\<not> js_lt (Finite (real i)) tc \<Longrightarrow> splitFileIntoChunks_loop file ps tc i chunks = Some chunks"
  by (subst splitFileIntoChunks_loop.simps) simp

lemma ceil_bounds:
  fixes a ps :: int
  assumes "0 < ps"
  shows "(\<lceil>real_of_int a / real_of_int ps\<rceil> - 1) * ps < a"
    and "a \<le> \<lceil>real_of_int a / real_of_int ps\<rceil> * ps"
proof -
  let ?x = "real_of_int a / real_of_int ps"
  have p: "0 < real_of_int ps" using assms by simp
  have "of_int \<lceil>?x\<rceil> - 1 < ?x" and "?x \<le> of_int \<lceil>?x\<rceil>"
    using ceiling_correct [of ?x] by simp_all
  then have "(of_int \<lceil>?x\<rceil> - 1) * real_of_int ps < real_of_int a"
    and "real_of_int a \<le> of_int \<lceil>?x\<rceil> * real_of_int ps"
    using p by (simp_all only: pos_less_divide_eq pos_divide_le_eq)
  then have "real_of_int ((\<lceil>?x\<rceil> - 1) * ps) < real_of_int a"
    and "real_of_int a \<le> real_of_int (\<lceil>?x\<rceil> * ps)"
    by simp_all
  then show "(\<lceil>?x\<rceil> - 1) * ps < a" and "a \<le> \<lceil>?x\<rceil> * ps"
    by (simp_all only: of_int_less_iff of_int_le_iff)
qed


lemma ceil_finite:
  "ps \<noteq> 0 \<Longrightarrow> Math_ceil (js_div (of_int a) (of_int ps))
     = Finite (of_int \<lceil>real_of_int a / real_of_int ps\<rceil>)"
  by (simp add: js_div_def)

lemma splitFileIntoChunks_finite:
  "ps \<noteq> 0 \<Longrightarrow> splitFileIntoChunks file ps
     = Some (map (chunkAt file ps)
               [0..<nat \<lceil>real_of_int (file_size file) / real_of_int ps\<rceil>])"
  by (simp add: splitFileIntoChunks_def ceil_finite loop_finite)

lemma slice_in_range:
  assumes "0 \<le> a" and "a \<le> b" and "b \<le> file_size file"
  shows "slice file a b t
           = \<lparr>blob_data = take (nat (b - a)) (drop (nat a) (file_data file)), blob_type = t\<rparr>"
proof -
  have "\<not> a < 0" and "\<not> b < 0" and "min a (file_size file) = a"
    and "min b (file_size file) = b" and "max (b - a) 0 = b - a"
    using assms by simp_all
  then show ?thesis
    by (simp only: slice_def Let_def if_False)
qed

lemma take_min_drop: "take (min p (length xs - a)) (drop a xs) = take p (drop a xs)"
  by (simp add: min_def)

lemma slice_data:
  assumes "0 \<le> a" and "0 < ps"
  shows "blob_data (slice file a (min (a + ps) (file_size file)) t)
           = take (nat ps) (drop (nat a) (file_data file))"
proof (cases "a \<le> file_size file")
  case True
  have n: "nat (min (a + ps) (file_size file) - a) = min (nat ps) (length (file_data file) - nat a)"
    using assms True by (simp add: file_size_def min_def) linarith
  have "slice file a (min (a + ps) (file_size file)) t
          = \<lparr>blob_data = take (nat (min (a + ps) (file_size file) - a)) (drop (nat a) (file_data file)),
              blob_type = t\<rparr>"
    using assms True by (intro slice_in_range) simp_all
  then show ?thesis
    by (simp only: n take_min_drop Blob.simps)
next
  case False
  then have "length (file_data file) \<le> nat a"
    by (simp add: file_size_def)
  then show ?thesis
    using assms False by (simp add: slice_def Let_def file_size_def min_def max_def)
qed

lemma chunkAt_data:
  assumes "0 < ps"
  shows "blob_data (blob (chunkAt file ps k)) = take (nat ps) (drop (k * nat ps) (file_data file))"
proof -
  have s: "nat (int k * ps) = k * nat ps"
    using assms by (simp add: nat_mult_distrib)
  have "0 \<le> int k * ps"
    using assms by simp
  from slice_data [OF this assms] show ?thesis
    by (simp add: chunkAt_def s)
qed

lemma concat_chunks:
  assumes "0 < ps"
  shows "concat (map (\<lambda>c. blob_data (blob c)) (map (chunkAt file ps) [0..<m]))
           = take (m * nat ps) (file_data file)"
proof (induction m)
  case 0
  show ?case by simp
next
  case (Suc m)
  have "take (m * nat ps) (file_data file) @ take (nat ps) (drop (m * nat ps) (file_data file))
          = take (m * nat ps + nat ps) (file_data file)"
    by (simp add: take_add)
  then show ?case
    using Suc by (simp add: chunkAt_data [OF assms] add.commute)
qed


lemma map_partNumber_upt: "map (\<lambda>k. int k + 1) [0..<m] = [1..int m]"
proof (induction m)
  case 0
  show ?case by simp
next
  case (Suc m)
  have "[1..int m + 1] = [1..int m] @ [int m + 1]"
    using upto_rec2 [of 1 "int m + 1"] by simp
  with Suc show ?case by (simp add: add.commute)
qed

lemma partNumber_chunkAt: "partNumber (chunkAt file ps k) = int k + 1"
  by (simp add: chunkAt_def)

lemma blob_chunkAt:
  "blob (chunkAt file ps k)
     = slice file (byteRangeStart ps (int k + 1))
         (byteRangeEnd (file_size file) ps (int k + 1)) (file_type file)"
  by (simp add: chunkAt_def byteRangeStart_def byteRangeEnd_def)

lemma range_facts:
  fixes ps sz n p :: int
  assumes ps: "0 < ps" and lo: "(n - 1) * ps < sz" and hi: "sz \<le> n * ps"
    and p: "1 \<le> p" "p \<le> n"
  shows "0 \<le> byteRangeStart ps p"
    and "byteRangeStart ps p < byteRangeEnd sz ps p"
    and "byteRangeEnd sz ps p \<le> sz"
    and "p < n \<longrightarrow> byteRangeEnd sz ps p = byteRangeStart ps (p + 1)"
    and "byteRangeEnd sz ps n = sz"
    and "byteRangeEnd sz ps n - byteRangeStart ps n = sz - (n - 1) * ps"
proof -
  have m: "(p - 1) * ps \<le> (n - 1) * ps"
    using ps p by (intro mult_right_mono) simp_all
  have e: "(p - 1) * ps + ps = p * ps" and e': "(n - 1) * ps + ps = n * ps"
    by (simp_all add: algebra_simps)
  show "0 \<le> byteRangeStart ps p"
    using ps p by (simp add: byteRangeStart_def)
  show "byteRangeStart ps p < byteRangeEnd sz ps p"
    unfolding byteRangeStart_def byteRangeEnd_def using ps m lo by linarith
  show "byteRangeEnd sz ps p \<le> sz"
    by (simp add: byteRangeEnd_def)
  show "p < n \<longrightarrow> byteRangeEnd sz ps p = byteRangeStart ps (p + 1)"
  proof
    assume "p < n"
    then have "p * ps \<le> (n - 1) * ps"
      using ps by (intro mult_right_mono) simp_all
    with lo have "p * ps \<le> sz" by simp
    then show "byteRangeEnd sz ps p = byteRangeStart ps (p + 1)"
      by (simp add: byteRangeStart_def byteRangeEnd_def e)
  qed
  show "byteRangeEnd sz ps n = sz"
    using hi by (simp add: byteRangeStart_def byteRangeEnd_def e')
  then show "byteRangeEnd sz ps n - byteRangeStart ps n = sz - (n - 1) * ps"
    by (simp add: byteRangeStart_def)
qed

lemma range_disjoint:
  fixes ps sz p q :: int
  assumes "0 < ps" and "p < q"
  shows "byteRangeEnd sz ps p \<le> byteRangeStart ps q"
proof -
  have "p * ps \<le> (q - 1) * ps"
    using assms by (intro mult_right_mono) simp_all
  moreover have "(p - 1) * ps + ps = p * ps"
    by (simp add: algebra_simps)
  ultimately show ?thesis
    by (simp add: byteRangeStart_def byteRangeEnd_def)
qed

lemma length_chunkAt_data:
  assumes "0 < ps"
  shows "length (blob_data (blob (chunkAt file ps k)))
           = min (nat ps) (nat (file_size file) - k * nat ps)"
  by (simp add: chunkAt_data [OF assms] file_size_def)

lemma ceil_pos:
  fixes a ps :: int
  assumes "0 < a" and "0 < ps"
  shows "1 \<le> \<lceil>real_of_int a / real_of_int ps\<rceil>"
proof -
  have "0 < real_of_int a / real_of_int ps"
    using assms by simp
  then have "0 < \<lceil>real_of_int a / real_of_int ps\<rceil>"
    by (simp only: ceiling_less_iff zero_less_ceiling)
  then show ?thesis by simp
qed

lemma ceil_nonpos:
  fixes a ps :: int
  assumes "0 \<le> a" and "ps < 0"
  shows "\<lceil>real_of_int a / real_of_int ps\<rceil> \<le> 0"
proof -
  have "real_of_int a / real_of_int ps \<le> 0"
    using assms by (simp add: divide_nonneg_neg)
  then show ?thesis by (simp add: ceiling_le_iff)
qed


text \<open>
  Claim C2. For a file of positive size and a positive part size, \<open>splitFileIntoChunks\<close>
  returns \<open>n = ceil (fileSize / partSize)\<close> parts, numbered \<open>1, 2, ..., n\<close> in order. The
  part numbered \<open>p\<close> holds the bytes of the range from \<open>(p - 1) * partSize\<close> up to
  \<open>min (start + partSize) fileSize\<close>; each range is non-empty and inside the file, each
  ends where the next begins, two different ranges do not overlap, the first starts at
  \<open>0\<close>, the last ends at \<open>fileSize\<close> and has length \<open>fileSize - (n - 1) * partSize\<close>, and
  the parts put together are the file. The part numbers and the part lengths are the same
  for any other file of the same size.
\<close>

theorem splitFileIntoChunks_parts:
  assumes "0 < file_size file" and "0 < partSize"
  defines "n \<equiv> \<lceil>real_of_int (file_size file) / real_of_int partSize\<rceil>"
  shows "\<exists>chunks. splitFileIntoChunks file partSize = Some chunks
    \<and> int (length chunks) = n
    \<and> map partNumber chunks = [1..n]
    \<and> (\<forall>p\<in>{1..n}.
          blob (chunks ! nat (p - 1))
            = slice file (byteRangeStart partSize p)
                (byteRangeEnd (file_size file) partSize p) (file_type file)
        \<and> int (length (blob_data (blob (chunks ! nat (p - 1)))))
            = byteRangeEnd (file_size file) partSize p - byteRangeStart partSize p
        \<and> 0 \<le> byteRangeStart partSize p
        \<and> byteRangeStart partSize p < byteRangeEnd (file_size file) partSize p
        \<and> byteRangeEnd (file_size file) partSize p \<le> file_size file
        \<and> (p < n \<longrightarrow> byteRangeEnd (file_size file) partSize p
                          = byteRangeStart partSize (p + 1))
        \<and> (\<forall>q\<in>{1..n}. p < q \<longrightarrow>
              byteRangeEnd (file_size file) partSize p \<le> byteRangeStart partSize q))
    \<and> byteRangeStart partSize 1 = 0
    \<and> byteRangeEnd (file_size file) partSize n = file_size file
    \<and> byteRangeEnd (file_size file) partSize n - byteRangeStart partSize n
        = file_size file - (n - 1) * partSize
    \<and> concat (map (\<lambda>c. blob_data (blob c)) chunks) = file_data file
    \<and> (\<forall>other. file_size other = file_size file \<longrightarrow>
          map_option (map (\<lambda>c. (partNumber c, length (blob_data (blob c)))))
            (splitFileIntoChunks other partSize)
          = Some (map (\<lambda>c. (partNumber c, length (blob_data (blob c)))) chunks))"
proof -
  let ?ps = partSize
  let ?sz = "file_size file"
  let ?chunks = "map (chunkAt file ?ps) [0..<nat n]"
  have ps0: "?ps \<noteq> 0" using assms(2) by simp
  have lo: "(n - 1) * ?ps < ?sz" and hi: "?sz \<le> n * ?ps"
    unfolding n_def using ceil_bounds [OF assms(2), of ?sz] by simp_all
  have n1: "1 \<le> n"
    unfolding n_def using assms(1,2) by (rule ceil_pos)
  have split: "splitFileIntoChunks file ?ps = Some ?chunks"
    unfolding n_def by (rule splitFileIntoChunks_finite [OF ps0])
  have len: "int (length ?chunks) = n"
    using n1 by simp
  have nums: "map partNumber ?chunks = [1..n]"
    using n1 map_partNumber_upt [of "nat n"] by (simp add: comp_def partNumber_chunkAt)
  have parts: "\<forall>p\<in>{1..n}.
          blob (?chunks ! nat (p - 1))
            = slice file (byteRangeStart ?ps p) (byteRangeEnd ?sz ?ps p) (file_type file)
        \<and> int (length (blob_data (blob (?chunks ! nat (p - 1)))))
            = byteRangeEnd ?sz ?ps p - byteRangeStart ?ps p
        \<and> 0 \<le> byteRangeStart ?ps p
        \<and> byteRangeStart ?ps p < byteRangeEnd ?sz ?ps p
        \<and> byteRangeEnd ?sz ?ps p \<le> ?sz
        \<and> (p < n \<longrightarrow> byteRangeEnd ?sz ?ps p = byteRangeStart ?ps (p + 1))
        \<and> (\<forall>q\<in>{1..n}. p < q \<longrightarrow> byteRangeEnd ?sz ?ps p \<le> byteRangeStart ?ps q)"
  proof
    fix p assume "p \<in> {1..n}"
    then have p: "1 \<le> p" "p \<le> n" by simp_all
    then have k: "nat (p - 1) < nat n" and ik: "int (nat (p - 1)) + 1 = p" by simp_all
    have c: "?chunks ! nat (p - 1) = chunkAt file ?ps (nat (p - 1))"
      using k by simp
    note rf = range_facts [OF assms(2) lo hi p]
    have b: "blob (?chunks ! nat (p - 1))
            = slice file (byteRangeStart ?ps p) (byteRangeEnd ?sz ?ps p) (file_type file)"
      by (simp only: c blob_chunkAt ik)
    have "slice file (byteRangeStart ?ps p) (byteRangeEnd ?sz ?ps p) (file_type file)
            = \<lparr>blob_data = take (nat (byteRangeEnd ?sz ?ps p - byteRangeStart ?ps p))
                             (drop (nat (byteRangeStart ?ps p)) (file_data file)),
                blob_type = file_type file\<rparr>"
      using rf(1,2,3) by (intro slice_in_range) simp_all
    then have l: "int (length (blob_data (blob (?chunks ! nat (p - 1)))))
            = byteRangeEnd ?sz ?ps p - byteRangeStart ?ps p"
      using rf(1,2,3) by (simp only: b) (simp add: file_size_def)
    have d: "\<forall>q\<in>{1..n}. p < q \<longrightarrow> byteRangeEnd ?sz ?ps p \<le> byteRangeStart ?ps q"
      using range_disjoint [OF assms(2)] by blast
    show "blob (?chunks ! nat (p - 1))
            = slice file (byteRangeStart ?ps p) (byteRangeEnd ?sz ?ps p) (file_type file)
        \<and> int (length (blob_data (blob (?chunks ! nat (p - 1)))))
            = byteRangeEnd ?sz ?ps p - byteRangeStart ?ps p
        \<and> 0 \<le> byteRangeStart ?ps p
        \<and> byteRangeStart ?ps p < byteRangeEnd ?sz ?ps p
        \<and> byteRangeEnd ?sz ?ps p \<le> ?sz
        \<and> (p < n \<longrightarrow> byteRangeEnd ?sz ?ps p = byteRangeStart ?ps (p + 1))
        \<and> (\<forall>q\<in>{1..n}. p < q \<longrightarrow> byteRangeEnd ?sz ?ps p \<le> byteRangeStart ?ps q)"
      using b l rf(1,2,3,4) d by blast
  qed
  have first: "byteRangeStart ?ps 1 = 0"
    by (simp add: byteRangeStart_def)
  note rn = range_facts(5,6) [OF assms(2) lo hi n1 order_refl]
  have "length (file_data file) \<le> nat n * nat ?ps"
  proof -
    have "int (length (file_data file)) \<le> int (nat n * nat ?ps)"
      using hi n1 assms(2) by (simp add: file_size_def)
    then show ?thesis by (simp only: of_nat_le_iff)
  qed
  then have cover: "concat (map (\<lambda>c. blob_data (blob c)) ?chunks) = file_data file"
    by (simp only: concat_chunks [OF assms(2)] take_all)
  have det: "\<forall>other. file_size other = file_size file \<longrightarrow>
          map_option (map (\<lambda>c. (partNumber c, length (blob_data (blob c)))))
            (splitFileIntoChunks other ?ps)
          = Some (map (\<lambda>c. (partNumber c, length (blob_data (blob c)))) ?chunks)"
  proof (intro allI impI)
    fix other assume eq: "file_size other = file_size file"
    have "splitFileIntoChunks other ?ps = Some (map (chunkAt other ?ps) [0..<nat n])"
      unfolding n_def eq [symmetric] by (rule splitFileIntoChunks_finite [OF ps0])
    then show "map_option (map (\<lambda>c. (partNumber c, length (blob_data (blob c)))))
            (splitFileIntoChunks other ?ps)
          = Some (map (\<lambda>c. (partNumber c, length (blob_data (blob c)))) ?chunks)"
      by (simp add: comp_def partNumber_chunkAt length_chunkAt_data [OF assms(2)] eq)
  qed
  show ?thesis
    using split len nums parts first rn cover det by blast
qed

theorem splitFileIntoChunks_parts_witness:
  "0 < file_size \<lparr>file_name = ''a.bin'', file_data = ''abcde'', file_type = ''x''\<rparr>
   \<and> (0::int) < 2
   \<and> (\<exists>chunks.
         splitFileIntoChunks \<lparr>file_name = ''a.bin'', file_data = ''abcde'', file_type = ''x''\<rparr> 2
           = Some chunks
       \<and> int (length chunks) = 3
       \<and> map partNumber chunks = [1, 2, 3]
       \<and> concat (map (\<lambda>c. blob_data (blob c)) chunks) = ''abcde'')"
proof -
  let ?F = "\<lparr>file_name = ''a.bin'', file_data = ''abcde'', file_type = ''x''\<rparr>"
  have a: "0 < file_size ?F" by (simp add: file_size_def)
  have b: "(0::int) < 2" by simp
  have c: "\<lceil>real_of_int (file_size ?F) / real_of_int 2\<rceil> = 3"
    by (simp add: file_size_def)
  have u: "[1..3] = [1, 2, 3::int]"
    by (simp add: upto.simps)
  from splitFileIntoChunks_parts [OF a b] show ?thesis
  proof (elim exE conjE)
    fix chunks
    assume s: "splitFileIntoChunks ?F 2 = Some chunks"
      and l: "int (length chunks) = \<lceil>real_of_int (file_size ?F) / real_of_int 2\<rceil>"
      and m: "map partNumber chunks = [1..\<lceil>real_of_int (file_size ?F) / real_of_int 2\<rceil>]"
      and d: "concat (map (\<lambda>c. blob_data (blob c)) chunks) = file_data ?F"
    have l': "int (length chunks) = 3"
      using l by (simp only: c)
    have m': "map partNumber chunks = [1, 2, 3]"
      using m by (simp only: c u)
    have d': "concat (map (\<lambda>c. blob_data (blob c)) chunks) = ''abcde''"
      using d by simp
    have "\<exists>chunks. splitFileIntoChunks ?F 2 = Some chunks \<and> int (length chunks) = 3
       \<and> map partNumber chunks = [1, 2, 3]
       \<and> concat (map (\<lambda>c. blob_data (blob c)) chunks) = ''abcde''"
      using s l' m' d' by (intro exI [of _ chunks] conjI)
    with a b show ?thesis by (intro conjI)
  qed
qed

text \<open>
  Claim C10. For a file of size zero and a positive part size, \<open>splitFileIntoChunks\<close>
  returns the empty sequence of parts.
\<close>

theorem splitFileIntoChunks_empty_file:
  assumes "file_size file = 0" and "0 < partSize"
  shows "splitFileIntoChunks file partSize = Some []"
  using assms by (simp add: splitFileIntoChunks_finite)

theorem splitFileIntoChunks_empty_file_witness:
  "file_size \<lparr>file_name = ''empty.bin'', file_data = [], file_type = ''x''\<rparr> = 0
   \<and> (0::int) < 5
   \<and> splitFileIntoChunks \<lparr>file_name = ''empty.bin'', file_data = [], file_type = ''x''\<rparr> 5
       = Some []"
  using splitFileIntoChunks_empty_file
    [of "\<lparr>file_name = ''empty.bin'', file_data = [], file_type = ''x''\<rparr>" 5]
  by (simp add: file_size_def)


text \<open>
  Claim C7 states that a part size of zero or less makes the chunker fail with an
  \<open>InvalidConfiguration\<close> error. The function has no check of the part size and raises
  nothing: with the part size \<open>-1\<close> it returns, and what it returns is the empty sequence.
\<close>

theorem splitFileIntoChunks_negative_partSize_returns:
  "splitFileIntoChunks \<lparr>file_name = ''a.bin'', file_data = ''abc'', file_type = ''x''\<rparr> (- 1)
     = Some []"
  by (simp add: splitFileIntoChunks_def file_size_def js_div_def splitFileIntoChunks_loop.simps)


text \<open>
  Claim C7, amended. For a negative part size and any file, and for the part size zero and
  an empty file, \<open>splitFileIntoChunks\<close> raises no error and returns the empty sequence of
  parts.
\<close>

theorem splitFileIntoChunks_nonpositive_partSize:
  assumes "partSize < 0 \<or> (partSize = 0 \<and> file_size file = 0)"
  shows "splitFileIntoChunks file partSize = Some []"
proof (cases "partSize < 0")
  case True
  have "0 \<le> file_size file" by (simp add: file_size_def)
  from ceil_nonpos [OF this True] True show ?thesis
    by (simp add: splitFileIntoChunks_finite)
next
  case False
  with assms have "partSize = 0" and "file_size file = 0" by simp_all
  then show ?thesis
    by (simp add: splitFileIntoChunks_def js_div_def loop_not_lt)
qed

theorem splitFileIntoChunks_nonpositive_partSize_witness:
  "splitFileIntoChunks \<lparr>file_name = ''b.bin'', file_data = ''hello'', file_type = ''x''\<rparr> (- 4)
     = Some []
   \<and> splitFileIntoChunks \<lparr>file_name = ''empty.bin'', file_data = [], file_type = ''x''\<rparr> 0
     = Some []"
  using splitFileIntoChunks_nonpositive_partSize
    [of "- 4" "\<lparr>file_name = ''b.bin'', file_data = ''hello'', file_type = ''x''\<rparr>"]
    splitFileIntoChunks_nonpositive_partSize
    [of 0 "\<lparr>file_name = ''empty.bin'', file_data = [], file_type = ''x''\<rparr>"]
  by (simp add: file_size_def)


text \<open>
  With the part size zero and a file that is not empty, the number of chunks is
  \<open>Infinity\<close> and the loop of \<open>splitFileIntoChunks\<close> never ends.
\<close>

lemma splitFileIntoChunks_zero_partSize_diverges:
  assumes "0 < file_size file"
  shows "splitFileIntoChunks file 0 = None"
  using assms by (simp add: splitFileIntoChunks_def js_div_def loop_PosInfinity)

section \<open>Properties of uploadPart\<close>

lemma snd_uploadPart: "snd (uploadPart env evs u b) = evs @ [Put u b]"
  by (simp add: uploadPart_def Let_def)

lemma fst_uploadPart:
  "fst (uploadPart env evs u b)
     = (case putReply env (evs @ [Put u b]) of Inl err \<Rightarrow> Inl err | Inr h \<Rightarrow> uploadPart_map h)"
  by (simp add: uploadPart_def Let_def)

lemma replaceQuotes_quoted:
  assumes "\<not> list_ex isLineTerminator t"
  shows "replaceQuotes (CHR 0x22 # t @ [CHR 0x22]) = t"
proof -
  have "list_all (\<lambda>c. \<not> isLineTerminator c) t"
    using assms by (simp add: list_all_iff list_ex_iff)
  then show ?thesis
    by (simp add: replaceQuotes_def butlast_append)
qed

lemma replaceQuotes_unquoted:
  assumes "\<not> (2 \<le> length h \<and> hd h = CHR 0x22 \<and> last h = CHR 0x22)"
  shows "replaceQuotes h = h"
  using assms by (auto simp: replaceQuotes_def)

text \<open>
  Claim C5. \<open>uploadPart\<close> succeeds exactly when the transport succeeds and the response has
  an \<open>ETag\<close> header that is not empty. A transport error is passed on; a response without
  the header, or with an empty one, is the error "No ETag found in response headers". A
  token between two double quotes (no line break inside, as in every header value) loses
  exactly that pair of quotes; a token that is not between two quotes is returned as it
  is.
\<close>

theorem uploadPart_success_iff:
  "((\<exists>t. fst (uploadPart env evs u b) = Inr t)
      \<longleftrightarrow> (\<exists>h. putReply env (evs @ [Put u b]) = Inr (Some h) \<and> h \<noteq> []))
   \<and> (putReply env (evs @ [Put u b]) = Inl err \<longrightarrow> fst (uploadPart env evs u b) = Inl err)
   \<and> (putReply env (evs @ [Put u b]) = Inr None \<or> putReply env (evs @ [Put u b]) = Inr (Some [])
        \<longrightarrow> fst (uploadPart env evs u b) = Inl (Error ''No ETag found in response headers''))
   \<and> (putReply env (evs @ [Put u b]) = Inr (Some (CHR 0x22 # t @ [CHR 0x22]))
        \<and> \<not> list_ex isLineTerminator t
        \<longrightarrow> fst (uploadPart env evs u b) = Inr t)
   \<and> (putReply env (evs @ [Put u b]) = Inr (Some h) \<and> h \<noteq> []
        \<and> \<not> (2 \<le> length h \<and> hd h = CHR 0x22 \<and> last h = CHR 0x22)
        \<longrightarrow> fst (uploadPart env evs u b) = Inr h)"
proof -
  have iff: "(\<exists>t. fst (uploadPart env evs u b) = Inr t)
      \<longleftrightarrow> (\<exists>h. putReply env (evs @ [Put u b]) = Inr (Some h) \<and> h \<noteq> [])"
    by (auto simp: fst_uploadPart uploadPart_map_def split: sum.splits option.splits if_splits)
  have err: "putReply env (evs @ [Put u b]) = Inl err \<longrightarrow> fst (uploadPart env evs u b) = Inl err"
    by (simp add: fst_uploadPart)
  have none: "putReply env (evs @ [Put u b]) = Inr None \<or> putReply env (evs @ [Put u b]) = Inr (Some [])
        \<longrightarrow> fst (uploadPart env evs u b) = Inl (Error ''No ETag found in response headers'')"
    by (auto simp: fst_uploadPart uploadPart_map_def)
  have quoted: "putReply env (evs @ [Put u b]) = Inr (Some (CHR 0x22 # t @ [CHR 0x22]))
        \<and> \<not> list_ex isLineTerminator t
        \<longrightarrow> fst (uploadPart env evs u b) = Inr t"
    by (simp add: fst_uploadPart uploadPart_map_def replaceQuotes_quoted)
  have plain: "putReply env (evs @ [Put u b]) = Inr (Some h) \<and> h \<noteq> []
        \<and> \<not> (2 \<le> length h \<and> hd h = CHR 0x22 \<and> last h = CHR 0x22)
        \<longrightarrow> fst (uploadPart env evs u b) = Inr h"
    by (auto simp: fst_uploadPart uploadPart_map_def replaceQuotes_unquoted)
  from iff err none quoted plain show ?thesis by (intro conjI)
qed

theorem uploadPart_success_iff_witness:
  "fst (uploadPart (envWithPut (Inr (Some (CHR 0x22 # ''abc'' @ [CHR 0x22])))) [] ''u''
          \<lparr>blob_data = ''xy'', blob_type = ''t''\<rparr>) = Inr ''abc''
   \<and> fst (uploadPart (envWithPut (Inr (Some ''abc''))) [] ''u''
          \<lparr>blob_data = ''xy'', blob_type = ''t''\<rparr>) = Inr ''abc''
   \<and> fst (uploadPart (envWithPut (Inr None)) [] ''u''
          \<lparr>blob_data = ''xy'', blob_type = ''t''\<rparr>)
        = Inl (Error ''No ETag found in response headers'')
   \<and> fst (uploadPart (envWithPut (Inl (HttpErrorResponse None ''Forbidden''))) [] ''u''
          \<lparr>blob_data = ''xy'', blob_type = ''t''\<rparr>)
        = Inl (HttpErrorResponse None ''Forbidden'')"
  using
    uploadPart_success_iff [where env = "envWithPut (Inr (Some (CHR 0x22 # ''abc'' @ [CHR 0x22])))"
      and evs = "[]" and u = "''u''" and b = "\<lparr>blob_data = ''xy'', blob_type = ''t''\<rparr>"
      and t = "''abc''"]
    uploadPart_success_iff [where env = "envWithPut (Inr (Some ''abc''))"
      and evs = "[]" and u = "''u''" and b = "\<lparr>blob_data = ''xy'', blob_type = ''t''\<rparr>"
      and h = "''abc''"]
    uploadPart_success_iff [where env = "envWithPut (Inr None)"
      and evs = "[]" and u = "''u''" and b = "\<lparr>blob_data = ''xy'', blob_type = ''t''\<rparr>"]
    uploadPart_success_iff [where env = "envWithPut (Inl (HttpErrorResponse None ''Forbidden''))"
      and evs = "[]" and u = "''u''" and b = "\<lparr>blob_data = ''xy'', blob_type = ''t''\<rparr>"
      and err = "HttpErrorResponse None ''Forbidden''"]
  by (simp add: envWithPut_def isLineTerminator_def)


section \<open>Properties of ModulesComponent.uploadBatch\<close>

lemma uploadPart_eq: "uploadPart env evs u b = (putOutcome env (evs @ [Put u b]), evs @ [Put u b])"
  by (simp add: uploadPart_def putOutcome_def Let_def)

lemma retry_3:
  "uploadBatch_retry env file ps pn u (Suc (Suc (Suc 0))) etags st evs = (False, etags, st, evs)"
  by (simp add: uploadBatch_retry.simps maxRetries_def)

lemma retry_step:
  assumes "retryCount < 3"
    and "b = slice file ((pn - 1) * ps) (min ((pn - 1) * ps + ps) (file_size file)) (file_type file)"
  shows "uploadBatch_retry env file ps pn u retryCount etags st evs =
     (case putOutcome env (evs @ [Put u b]) of
        Inr e \<Rightarrow> (True, etags @ [\<lparr>partNumber = pn, etag = e\<rparr>],
                  observePause env st (evs @ [Put u b]), evs @ [Put u b])
      | Inl err \<Rightarrow>
          (if Suc retryCount < 3 then
             uploadBatch_retry env file ps pn u (Suc retryCount) etags
               (observePause env (observePause env st (evs @ [Put u b]))
                  (evs @ [Put u b, FailedAttempt pn (Suc retryCount),
                          Sleep (min (1000 * 2 ^ Suc retryCount) 10000)]))
               (evs @ [Put u b, FailedAttempt pn (Suc retryCount),
                       Sleep (min (1000 * 2 ^ Suc retryCount) 10000)])
           else uploadBatch_retry env file ps pn u (Suc retryCount) etags
                  (observePause env st (evs @ [Put u b]))
                  (evs @ [Put u b, FailedAttempt pn (Suc retryCount)])))"
  using assms
  by (subst uploadBatch_retry.simps)
    (simp add: maxRetries_def Let_def uploadPart_eq split: sum.split)

text \<open>What the loop for one part returns, by the outcomes of its attempts.\<close>

lemma retry_result:
  assumes b: "b = slice file ((pn - 1) * ps) (min ((pn - 1) * ps + ps) (file_size file)) (file_type file)"
    and a1: "a1 = evs @ [Put u b]"
    and a2: "a2 = a1 @ [FailedAttempt pn 1, Sleep 2000, Put u b]"
    and a3: "a3 = a2 @ [FailedAttempt pn 2, Sleep 4000, Put u b]"
  shows "\<exists>st'. uploadBatch_retry env file ps pn u 0 etags st evs =
     (case putOutcome env a1 of
        Inr e \<Rightarrow> (True, etags @ [\<lparr>partNumber = pn, etag = e\<rparr>], st', a1)
      | Inl x \<Rightarrow>
         (case putOutcome env a2 of
            Inr e \<Rightarrow> (True, etags @ [\<lparr>partNumber = pn, etag = e\<rparr>], st', a2)
          | Inl y \<Rightarrow>
             (case putOutcome env a3 of
                Inr e \<Rightarrow> (True, etags @ [\<lparr>partNumber = pn, etag = e\<rparr>], st', a3)
              | Inl z \<Rightarrow> (False, etags, st', a3 @ [FailedAttempt pn 3]))))"
proof -
  have d: "min (1000 * 2 ^ Suc 0) (10000::int) = 2000"
    "min (1000 * 2 ^ Suc (Suc 0)) (10000::int) = 4000"
    by simp_all
  have s0: "\<And>st evs. uploadBatch_retry env file ps pn u 0 etags st evs =
     (case putOutcome env (evs @ [Put u b]) of
        Inr e \<Rightarrow> (True, etags @ [\<lparr>partNumber = pn, etag = e\<rparr>],
                  observePause env st (evs @ [Put u b]), evs @ [Put u b])
      | Inl err \<Rightarrow>
             uploadBatch_retry env file ps pn u (Suc 0) etags
               (observePause env (observePause env st (evs @ [Put u b]))
                  (evs @ [Put u b, FailedAttempt pn 1, Sleep 2000]))
               (evs @ [Put u b, FailedAttempt pn 1, Sleep 2000]))"
    using retry_step [OF _ b, of 0] by (simp add: d split: sum.split)
  have s1: "\<And>st evs. uploadBatch_retry env file ps pn u (Suc 0) etags st evs =
     (case putOutcome env (evs @ [Put u b]) of
        Inr e \<Rightarrow> (True, etags @ [\<lparr>partNumber = pn, etag = e\<rparr>],
                  observePause env st (evs @ [Put u b]), evs @ [Put u b])
      | Inl err \<Rightarrow>
             uploadBatch_retry env file ps pn u (Suc (Suc 0)) etags
               (observePause env (observePause env st (evs @ [Put u b]))
                  (evs @ [Put u b, FailedAttempt pn 2, Sleep 4000]))
               (evs @ [Put u b, FailedAttempt pn 2, Sleep 4000]))"
    using retry_step [OF _ b, of "Suc 0"] by (simp add: d numeral_2_eq_2 numeral_3_eq_3 split: sum.split)
  have s2: "\<And>st evs. uploadBatch_retry env file ps pn u (Suc (Suc 0)) etags st evs =
     (case putOutcome env (evs @ [Put u b]) of
        Inr e \<Rightarrow> (True, etags @ [\<lparr>partNumber = pn, etag = e\<rparr>],
                  observePause env st (evs @ [Put u b]), evs @ [Put u b])
      | Inl err \<Rightarrow> (False, etags, observePause env st (evs @ [Put u b]),
                   evs @ [Put u b, FailedAttempt pn 3]))"
    using retry_step [OF _ b, of "Suc (Suc 0)"] by (simp add: retry_3 numeral_2_eq_2 numeral_3_eq_3 split: sum.split)
  show ?thesis
  proof (cases "putOutcome env a1")
    case (Inr e)
    then show ?thesis
      by (simp add: s0 a1 [symmetric])
  next
    case o1: (Inl x)
    show ?thesis
    proof (cases "putOutcome env a2")
      case (Inr e)
      with o1 show ?thesis
        unfolding a1 a2 by (simp add: s0 s1)
    next
      case o2: (Inl y)
      show ?thesis
      proof (cases "putOutcome env a3")
        case (Inr e)
        with o1 o2 show ?thesis
          unfolding a1 a2 a3 by (simp add: s0 s1 s2)
      next
        case (Inl z)
        with o1 o2 show ?thesis
          unfolding a1 a2 a3 by (simp add: s0 s1 s2)
      qed
    qed
  qed
qed


lemma retry_extends:
  assumes "uploadBatch_retry env file ps pn u 0 etags st evs = (success, etags1, st1, evs1)"
  shows "\<exists>ext. evs1 = evs @ ext
           \<and> length (filter isPut ext) \<le> 3
           \<and> length etags1 + length (filter isExhausted ext) = length etags + 1"
proof -
  define b where "b = slice file ((pn - 1) * ps) (min ((pn - 1) * ps + ps) (file_size file)) (file_type file)"
  define a1 where "a1 = evs @ [Put u b]"
  define a2 where "a2 = a1 @ [FailedAttempt pn 1, Sleep 2000, Put u b]"
  define a3 where "a3 = a2 @ [FailedAttempt pn 2, Sleep 4000, Put u b]"
  from retry_result [OF b_def a1_def a2_def a3_def] obtain st' where
    "uploadBatch_retry env file ps pn u 0 etags st evs =
     (case putOutcome env a1 of
        Inr e \<Rightarrow> (True, etags @ [\<lparr>partNumber = pn, etag = e\<rparr>], st', a1)
      | Inl x \<Rightarrow>
         (case putOutcome env a2 of
            Inr e \<Rightarrow> (True, etags @ [\<lparr>partNumber = pn, etag = e\<rparr>], st', a2)
          | Inl y \<Rightarrow>
             (case putOutcome env a3 of
                Inr e \<Rightarrow> (True, etags @ [\<lparr>partNumber = pn, etag = e\<rparr>], st', a3)
              | Inl z \<Rightarrow> (False, etags, st', a3 @ [FailedAttempt pn 3]))))" ..
  with assms have R: "(success, etags1, st1, evs1) =
     (case putOutcome env a1 of
        Inr e \<Rightarrow> (True, etags @ [\<lparr>partNumber = pn, etag = e\<rparr>], st', a1)
      | Inl x \<Rightarrow>
         (case putOutcome env a2 of
            Inr e \<Rightarrow> (True, etags @ [\<lparr>partNumber = pn, etag = e\<rparr>], st', a2)
          | Inl y \<Rightarrow>
             (case putOutcome env a3 of
                Inr e \<Rightarrow> (True, etags @ [\<lparr>partNumber = pn, etag = e\<rparr>], st', a3)
              | Inl z \<Rightarrow> (False, etags, st', a3 @ [FailedAttempt pn 3]))))"
    by simp
  show ?thesis
  proof (cases "putOutcome env a1")
    case (Inr e)
    with R have "evs1 = a1" and "etags1 = etags @ [\<lparr>partNumber = pn, etag = e\<rparr>]"
      by simp_all
    then show ?thesis
      by (simp add: a1_def)
  next
    case o1: (Inl x)
    show ?thesis
    proof (cases "putOutcome env a2")
      case (Inr e)
      with R o1 have "evs1 = a2" and "etags1 = etags @ [\<lparr>partNumber = pn, etag = e\<rparr>]"
        by simp_all
      then show ?thesis
        by (simp add: a1_def a2_def maxRetries_def)
    next
      case o2: (Inl y)
      show ?thesis
      proof (cases "putOutcome env a3")
        case (Inr e)
        with R o1 o2 have "evs1 = a3" and "etags1 = etags @ [\<lparr>partNumber = pn, etag = e\<rparr>]"
          by simp_all
        then show ?thesis
          by (simp add: a1_def a2_def a3_def maxRetries_def)
      next
        case (Inl z)
        with R o1 o2 have "evs1 = a3 @ [FailedAttempt pn 3]" and "etags1 = etags"
          by simp_all
        then show ?thesis
          by (simp add: a1_def a2_def a3_def maxRetries_def)
      qed
    qed
  qed
qed

lemma loop_extends:
  assumes "uploadBatch_loop env file ps urls etags st evs = (receipts, st', evs')"
  shows "\<exists>ext. evs' = evs @ ext
           \<and> length receipts + length (filter isExhausted ext) = length etags + length urls"
  using assms
proof (induction urls arbitrary: etags st evs)
  case Nil
  then show ?case by simp
next
  case (Cons p rest)
  obtain success etags1 st1 evs1 where
    r: "uploadBatch_retry env file ps (partNumber p) (url p) 0 etags st evs
          = (success, etags1, st1, evs1)"
    by (cases "uploadBatch_retry env file ps (partNumber p) (url p) 0 etags st evs") blast
  from retry_extends [OF r] obtain ext1 where
    e1: "evs1 = evs @ ext1"
    and c1: "length etags1 + length (filter isExhausted ext1) = length etags + 1"
    by blast
  obtain st2 evs2 where
    u: "(case uploadState st1 of
               Some us \<Rightarrow>
                 if success then
                   (let size = int (length etags1) * ps;
                        v = min size (fileSize us)
                    in (st1\<lparr>uploadState := Some (us\<lparr>uploadedSize := v\<rparr>)\<rparr>,
                        evs1 @ [UploadedSize v]))
                 else (st1, evs1)
             | None \<Rightarrow> (st1, evs1)) = (st2, evs2)"
    by (cases "(case uploadState st1 of
               Some us \<Rightarrow>
                 if success then
                   (let size = int (length etags1) * ps;
                        v = min size (fileSize us)
                    in (st1\<lparr>uploadState := Some (us\<lparr>uploadedSize := v\<rparr>)\<rparr>,
                        evs1 @ [UploadedSize v]))
                 else (st1, evs1)
             | None \<Rightarrow> (st1, evs1))") blast
  then have "\<exists>ext2. evs2 = evs1 @ ext2 \<and> filter isExhausted ext2 = []"
    by (auto simp: Let_def split: option.splits if_splits)
  then obtain ext2 where e2: "evs2 = evs1 @ ext2" and c2: "filter isExhausted ext2 = []"
    by blast
  from Cons.prems r u have
    "uploadBatch_loop env file ps rest etags1 st2 evs2 = (receipts, st', evs')"
    by simp
  from Cons.IH [OF this] obtain ext3 where
    e3: "evs' = evs2 @ ext3"
    and c3: "length receipts + length (filter isExhausted ext3) = length etags1 + length rest"
    by blast
  have "evs' = evs @ (ext1 @ ext2 @ ext3)"
    by (simp add: e1 e2 e3)
  moreover have "length receipts + length (filter isExhausted (ext1 @ ext2 @ ext3))
                   = length etags + length (p # rest)"
    using c1 c2 c3 by simp
  ultimately show ?case by blast
qed

lemma byteRange_unfold:
  "slice file (byteRangeStart ps pn) (byteRangeEnd (file_size file) ps pn) (file_type file)
     = slice file ((pn - 1) * ps) (min ((pn - 1) * ps + ps) (file_size file)) (file_type file)"
  by (simp add: byteRangeStart_def byteRangeEnd_def)


lemma retry_outcomes:
  assumes b: "b = slice file (byteRangeStart ps pn) (byteRangeEnd (file_size file) ps pn)
                    (file_type file)"
    and w2: "w2 = evs @ [Put u b, FailedAttempt pn 1, Sleep (min (1000 * 2 ^ 1) 10000)]"
    and w3: "w3 = w2 @ [Put u b, FailedAttempt pn 2, Sleep (min (1000 * 2 ^ 2) 10000)]"
    and r: "uploadBatch_retry env file ps pn u 0 etags st evs = (success, receipts, st', evs')"
  shows "\<forall>e. fst (uploadPart env evs u b) = Inr e \<longrightarrow>
            success \<and> receipts = etags @ [\<lparr>partNumber = pn, etag = e\<rparr>]
            \<and> evs' = evs @ [Put u b]"
    and "\<forall>x e. fst (uploadPart env evs u b) = Inl x \<and> fst (uploadPart env w2 u b) = Inr e \<longrightarrow>
            success \<and> receipts = etags @ [\<lparr>partNumber = pn, etag = e\<rparr>]
            \<and> evs' = w2 @ [Put u b]"
    and "\<forall>x y e. fst (uploadPart env evs u b) = Inl x \<and> fst (uploadPart env w2 u b) = Inl y
            \<and> fst (uploadPart env w3 u b) = Inr e \<longrightarrow>
            success \<and> receipts = etags @ [\<lparr>partNumber = pn, etag = e\<rparr>]
            \<and> evs' = w3 @ [Put u b]"
    and "\<forall>x y z. fst (uploadPart env evs u b) = Inl x \<and> fst (uploadPart env w2 u b) = Inl y
            \<and> fst (uploadPart env w3 u b) = Inl z \<longrightarrow>
            \<not> success \<and> receipts = etags
            \<and> evs' = w3 @ [Put u b, FailedAttempt pn 3]"
proof -
  have b': "b = slice file ((pn - 1) * ps) (min ((pn - 1) * ps + ps) (file_size file)) (file_type file)"
    by (simp only: b byteRange_unfold)
  define a1 where "a1 = evs @ [Put u b]"
  define a2 where "a2 = a1 @ [FailedAttempt pn 1, Sleep 2000, Put u b]"
  define a3 where "a3 = a2 @ [FailedAttempt pn 2, Sleep 4000, Put u b]"
  have o1: "fst (uploadPart env evs u b) = putOutcome env a1"
    by (simp add: uploadPart_eq a1_def)
  have o2: "fst (uploadPart env w2 u b) = putOutcome env a2"
    by (simp add: uploadPart_eq a1_def a2_def w2)
  have o3: "fst (uploadPart env w3 u b) = putOutcome env a3"
    by (simp add: uploadPart_eq a1_def a2_def a3_def w2 w3)
  have e1: "evs @ [Put u b] = a1" and e2: "w2 @ [Put u b] = a2" and e3: "w3 @ [Put u b] = a3"
    and e4: "w3 @ [Put u b, FailedAttempt pn 3] = a3 @ [FailedAttempt pn 3]"
    by (simp_all add: a1_def a2_def a3_def w2 w3)
  from retry_result [OF b' a1_def a2_def a3_def] obtain st'' where
    "uploadBatch_retry env file ps pn u 0 etags st evs =
     (case putOutcome env a1 of
        Inr e \<Rightarrow> (True, etags @ [\<lparr>partNumber = pn, etag = e\<rparr>], st'', a1)
      | Inl x \<Rightarrow>
         (case putOutcome env a2 of
            Inr e \<Rightarrow> (True, etags @ [\<lparr>partNumber = pn, etag = e\<rparr>], st'', a2)
          | Inl y \<Rightarrow>
             (case putOutcome env a3 of
                Inr e \<Rightarrow> (True, etags @ [\<lparr>partNumber = pn, etag = e\<rparr>], st'', a3)
              | Inl z \<Rightarrow> (False, etags, st'', a3 @ [FailedAttempt pn 3]))))" ..
  with r have R: "(success, receipts, st', evs') =
     (case putOutcome env a1 of
        Inr e \<Rightarrow> (True, etags @ [\<lparr>partNumber = pn, etag = e\<rparr>], st'', a1)
      | Inl x \<Rightarrow>
         (case putOutcome env a2 of
            Inr e \<Rightarrow> (True, etags @ [\<lparr>partNumber = pn, etag = e\<rparr>], st'', a2)
          | Inl y \<Rightarrow>
             (case putOutcome env a3 of
                Inr e \<Rightarrow> (True, etags @ [\<lparr>partNumber = pn, etag = e\<rparr>], st'', a3)
              | Inl z \<Rightarrow> (False, etags, st'', a3 @ [FailedAttempt pn 3]))))"
    by simp
  show "\<forall>e. fst (uploadPart env evs u b) = Inr e \<longrightarrow>
            success \<and> receipts = etags @ [\<lparr>partNumber = pn, etag = e\<rparr>]
            \<and> evs' = evs @ [Put u b]"
  proof (intro allI impI)
    fix e assume h1: "fst (uploadPart env evs u b) = Inr e"
    from h1 have q1: "putOutcome env a1 = Inr e" by (simp only: o1)
    from R q1 have "success \<and> receipts = etags @ [\<lparr>partNumber = pn, etag = e\<rparr>] \<and> evs' = a1"
      by simp
    then show "success \<and> receipts = etags @ [\<lparr>partNumber = pn, etag = e\<rparr>]
            \<and> evs' = evs @ [Put u b]"
      by (simp only: e1)
  qed
  show "\<forall>x e. fst (uploadPart env evs u b) = Inl x \<and> fst (uploadPart env w2 u b) = Inr e \<longrightarrow>
            success \<and> receipts = etags @ [\<lparr>partNumber = pn, etag = e\<rparr>]
            \<and> evs' = w2 @ [Put u b]"
  proof (intro allI impI, elim conjE)
    fix x e assume h1: "fst (uploadPart env evs u b) = Inl x"
      and h2: "fst (uploadPart env w2 u b) = Inr e"
    from h1 have q1: "putOutcome env a1 = Inl x" by (simp only: o1)
    from h2 have q2: "putOutcome env a2 = Inr e" by (simp only: o2)
    from R q1 q2 have "success \<and> receipts = etags @ [\<lparr>partNumber = pn, etag = e\<rparr>] \<and> evs' = a2"
      by simp
    then show "success \<and> receipts = etags @ [\<lparr>partNumber = pn, etag = e\<rparr>]
            \<and> evs' = w2 @ [Put u b]"
      by (simp only: e2)
  qed
  show "\<forall>x y e. fst (uploadPart env evs u b) = Inl x \<and> fst (uploadPart env w2 u b) = Inl y
            \<and> fst (uploadPart env w3 u b) = Inr e \<longrightarrow>
            success \<and> receipts = etags @ [\<lparr>partNumber = pn, etag = e\<rparr>]
            \<and> evs' = w3 @ [Put u b]"
  proof (intro allI impI, elim conjE)
    fix x y e assume h1: "fst (uploadPart env evs u b) = Inl x"
      and h2: "fst (uploadPart env w2 u b) = Inl y"
      and h3: "fst (uploadPart env w3 u b) = Inr e"
    from h1 have q1: "putOutcome env a1 = Inl x" by (simp only: o1)
    from h2 have q2: "putOutcome env a2 = Inl y" by (simp only: o2)
    from h3 have q3: "putOutcome env a3 = Inr e" by (simp only: o3)
    from R q1 q2 q3 have "success \<and> receipts = etags @ [\<lparr>partNumber = pn, etag = e\<rparr>] \<and> evs' = a3"
      by simp
    then show "success \<and> receipts = etags @ [\<lparr>partNumber = pn, etag = e\<rparr>]
            \<and> evs' = w3 @ [Put u b]"
      by (simp only: e3)
  qed
  show "\<forall>x y z. fst (uploadPart env evs u b) = Inl x \<and> fst (uploadPart env w2 u b) = Inl y
            \<and> fst (uploadPart env w3 u b) = Inl z \<longrightarrow>
            \<not> success \<and> receipts = etags
            \<and> evs' = w3 @ [Put u b, FailedAttempt pn 3]"
  proof (intro allI impI, elim conjE)
    fix x y z assume h1: "fst (uploadPart env evs u b) = Inl x"
      and h2: "fst (uploadPart env w2 u b) = Inl y"
      and h3: "fst (uploadPart env w3 u b) = Inl z"
    from h1 have q1: "putOutcome env a1 = Inl x" by (simp only: o1)
    from h2 have q2: "putOutcome env a2 = Inl y" by (simp only: o2)
    from h3 have q3: "putOutcome env a3 = Inl z" by (simp only: o3)
    from R q1 q2 q3 have "\<not> success \<and> receipts = etags \<and> evs' = a3 @ [FailedAttempt pn 3]"
      by simp
    then show "\<not> success \<and> receipts = etags \<and> evs' = w3 @ [Put u b, FailedAttempt pn 3]"
      by (simp only: e4 simp_thms)
  qed
qed

lemma batch_counts:
  assumes r: "uploadBatch_retry env file ps pn u 0 etags st evs = (success, receipts, st', evs')"
    and batch: "ModulesComponent_uploadBatch env file ps urls st0 evs0
                  = (batchReceipts, st0', evs0')"
  shows "take (length evs) evs' = evs"
    and "length (filter isPut (drop (length evs) evs')) \<le> 3"
    and "take (length evs0) evs0' = evs0"
    and "length (filter isExhausted (drop (length evs0) evs0')) \<le> length urls"
    and "length batchReceipts
         = length urls - length (filter isExhausted (drop (length evs0) evs0'))"
proof -
  from retry_extends [OF r] obtain ext where
    "evs' = evs @ ext" and "length (filter isPut ext) \<le> 3"
    by blast
  then show "take (length evs) evs' = evs"
    and "length (filter isPut (drop (length evs) evs')) \<le> 3"
    by simp_all
  from batch have "uploadBatch_loop env file ps urls [] st0 evs0 = (batchReceipts, st0', evs0')"
    by (simp add: ModulesComponent_uploadBatch_def)
  from loop_extends [OF this] obtain ext0 where
    x: "evs0' = evs0 @ ext0"
    and n: "length batchReceipts + length (filter isExhausted ext0) = length urls"
    by auto
  show "take (length evs0) evs0' = evs0"
    by (simp add: x)
  show "length (filter isExhausted (drop (length evs0) evs0')) \<le> length urls"
    using n by (simp add: x)
  show "length batchReceipts
         = length urls - length (filter isExhausted (drop (length evs0) evs0'))"
    using n by (simp add: x)
qed

text \<open>
  Claim C4. For one part of a wave, \<open>uploadBatch\<close> makes at most three attempts. The
  first attempt is made at once; after the first failure it waits
  \<open>min (1000 * 2^1) 10000\<close> milliseconds and after the second \<open>min (1000 * 2^2) 10000\<close>
  before it tries again. A part whose attempt succeeds, be it the first, the second or
  the third, adds exactly one receipt and ends its attempts; a part whose three attempts
  fail adds none. The number of receipts that the batch returns is the number of the
  requested parts minus the number of parts whose third attempt failed.
\<close>

theorem uploadBatch_retries:
  assumes b: "b = slice file (byteRangeStart ps pn) (byteRangeEnd (file_size file) ps pn)
                    (file_type file)"
    and w2: "w2 = evs @ [Put u b, FailedAttempt pn 1, Sleep (min (1000 * 2 ^ 1) 10000)]"
    and w3: "w3 = w2 @ [Put u b, FailedAttempt pn 2, Sleep (min (1000 * 2 ^ 2) 10000)]"
    and r: "uploadBatch_retry env file ps pn u 0 etags st evs = (success, receipts, st', evs')"
    and batch: "ModulesComponent_uploadBatch env file ps urls st0 evs0
                  = (batchReceipts, st0', evs0')"
  shows "(\<forall>e. fst (uploadPart env evs u b) = Inr e \<longrightarrow>
            success \<and> receipts = etags @ [\<lparr>partNumber = pn, etag = e\<rparr>]
            \<and> evs' = evs @ [Put u b])
    \<and> (\<forall>x e. fst (uploadPart env evs u b) = Inl x \<and> fst (uploadPart env w2 u b) = Inr e \<longrightarrow>
            success \<and> receipts = etags @ [\<lparr>partNumber = pn, etag = e\<rparr>]
            \<and> evs' = w2 @ [Put u b])
    \<and> (\<forall>x y e. fst (uploadPart env evs u b) = Inl x \<and> fst (uploadPart env w2 u b) = Inl y
            \<and> fst (uploadPart env w3 u b) = Inr e \<longrightarrow>
            success \<and> receipts = etags @ [\<lparr>partNumber = pn, etag = e\<rparr>]
            \<and> evs' = w3 @ [Put u b])
    \<and> (\<forall>x y z. fst (uploadPart env evs u b) = Inl x \<and> fst (uploadPart env w2 u b) = Inl y
            \<and> fst (uploadPart env w3 u b) = Inl z \<longrightarrow>
            \<not> success \<and> receipts = etags
            \<and> evs' = w3 @ [Put u b, FailedAttempt pn 3])
    \<and> take (length evs) evs' = evs
    \<and> length (filter isPut (drop (length evs) evs')) \<le> 3
    \<and> take (length evs0) evs0' = evs0
    \<and> length (filter isExhausted (drop (length evs0) evs0')) \<le> length urls
    \<and> length batchReceipts
         = length urls - length (filter isExhausted (drop (length evs0) evs0'))"
  by (rule conjI [OF retry_outcomes(1) [OF b w2 w3 r]
        conjI [OF retry_outcomes(2) [OF b w2 w3 r]
        conjI [OF retry_outcomes(3) [OF b w2 w3 r]
        conjI [OF retry_outcomes(4) [OF b w2 w3 r]
        conjI [OF batch_counts(1) [OF r batch]
        conjI [OF batch_counts(2) [OF r batch]
        conjI [OF batch_counts(3) [OF r batch]
        conjI [OF batch_counts(4) [OF r batch] batch_counts(5) [OF r batch]]]]]]]]])

lemma retry_envFailingTwice:
  "uploadBatch_retry envFailingTwice
      \<lparr>file_name = ''a.bin'', file_data = ''abcde'', file_type = ''x''\<rparr> 2 1 ''u1'' 0 []
      initialComponent []
    = (True, [\<lparr>partNumber = 1, etag = ''e1''\<rparr>], initialComponent,
       [Put ''u1'' \<lparr>blob_data = ''ab'', blob_type = ''x''\<rparr>, FailedAttempt 1 1, Sleep 2000,
        Put ''u1'' \<lparr>blob_data = ''ab'', blob_type = ''x''\<rparr>, FailedAttempt 1 2, Sleep 4000,
        Put ''u1'' \<lparr>blob_data = ''ab'', blob_type = ''x''\<rparr>])"
  by (simp add: uploadBatch_retry.simps maxRetries_def uploadPart_def uploadPart_map_def
        replaceQuotes_def envFailingTwice_def envWithPut_def slice_def file_size_def
        observePause_def Let_def)

theorem uploadBatch_retries_witness:
  "uploadBatch_retry envFailingTwice
      \<lparr>file_name = ''a.bin'', file_data = ''abcde'', file_type = ''x''\<rparr> 2 1 ''u1'' 0 []
      initialComponent []
    = (True, [\<lparr>partNumber = 1, etag = ''e1''\<rparr>], initialComponent,
       [Put ''u1'' \<lparr>blob_data = ''ab'', blob_type = ''x''\<rparr>, FailedAttempt 1 1, Sleep 2000,
        Put ''u1'' \<lparr>blob_data = ''ab'', blob_type = ''x''\<rparr>, FailedAttempt 1 2, Sleep 4000,
        Put ''u1'' \<lparr>blob_data = ''ab'', blob_type = ''x''\<rparr>])
   \<and> ModulesComponent_uploadBatch envFailingTwice
      \<lparr>file_name = ''a.bin'', file_data = ''abcde'', file_type = ''x''\<rparr> 2
      [\<lparr>partNumber = 1, url = ''u1''\<rparr>] initialComponent []
    = ([\<lparr>partNumber = 1, etag = ''e1''\<rparr>], initialComponent,
       [Put ''u1'' \<lparr>blob_data = ''ab'', blob_type = ''x''\<rparr>, FailedAttempt 1 1, Sleep 2000,
        Put ''u1'' \<lparr>blob_data = ''ab'', blob_type = ''x''\<rparr>, FailedAttempt 1 2, Sleep 4000,
        Put ''u1'' \<lparr>blob_data = ''ab'', blob_type = ''x''\<rparr>])
   \<and> length [\<lparr>partNumber = 1, etag = ''e1''\<rparr>]
       = length [\<lparr>partNumber = 1, url = ''u1''\<rparr>]
         - length (filter isExhausted (drop (length ([]::event list))
       [Put ''u1'' \<lparr>blob_data = ''ab'', blob_type = ''x''\<rparr>, FailedAttempt 1 1, Sleep 2000,
        Put ''u1'' \<lparr>blob_data = ''ab'', blob_type = ''x''\<rparr>, FailedAttempt 1 2, Sleep 4000,
        Put ''u1'' \<lparr>blob_data = ''ab'', blob_type = ''x''\<rparr>]))"
proof -
  let ?F = "\<lparr>file_name = ''a.bin'', file_data = ''abcde'', file_type = ''x''\<rparr>"
  let ?E = "[Put ''u1'' \<lparr>blob_data = ''ab'', blob_type = ''x''\<rparr>, FailedAttempt 1 1, Sleep 2000,
        Put ''u1'' \<lparr>blob_data = ''ab'', blob_type = ''x''\<rparr>, FailedAttempt 1 2, Sleep 4000,
        Put ''u1'' \<lparr>blob_data = ''ab'', blob_type = ''x''\<rparr>]"
  have r: "uploadBatch_retry envFailingTwice ?F 2 1 ''u1'' 0 [] initialComponent []
             = (True, [\<lparr>partNumber = 1, etag = ''e1''\<rparr>], initialComponent, ?E)"
    by (rule retry_envFailingTwice)
  have batch: "ModulesComponent_uploadBatch envFailingTwice ?F 2
                 [\<lparr>partNumber = 1, url = ''u1''\<rparr>] initialComponent []
             = ([\<lparr>partNumber = 1, etag = ''e1''\<rparr>], initialComponent, ?E)"
    by (simp add: ModulesComponent_uploadBatch_def r initialComponent_def [symmetric])
      (simp add: initialComponent_def)
  from uploadBatch_retries [OF refl refl refl r batch]
  have "length [\<lparr>partNumber = 1, etag = ''e1''\<rparr>]
       = length [\<lparr>partNumber = 1, url = ''u1''\<rparr>]
         - length (filter isExhausted (drop (length ([]::event list)) ?E))"
    by (elim conjE)
  with r batch show ?thesis
    by (intro conjI)
qed

section \<open>Properties of ModulesComponent.abortUpload\<close>

lemma resetUploadState_initial: "resetUploadState st = initialComponent"
  by (cases st) (simp add: resetUploadState_def initialComponent_def)

text \<open>
  Claim C9. In a state with an upload state whose \<open>uploadId\<close> is set and not empty,
  \<open>abortUpload\<close> sends exactly one abort request, for that id, and then the component has
  its initial values again: \<open>uploading\<close>, \<open>isPaused\<close>, \<open>progress\<close>, \<open>selectedFile\<close>,
  \<open>uploadState\<close> and \<open>errorMessage\<close>. This holds for every remote service, whether it
  accepts the abort request or answers it with an error.
\<close>

theorem abortUpload_resets:
  assumes "uploadState st = Some us" and "uploadId us = Some uid" and "uid \<noteq> []"
  shows "ModulesComponent_abortUpload env st evs = (initialComponent, evs @ [Abort uid])
    \<and> uploading initialComponent = False \<and> isPaused initialComponent = False
    \<and> progress initialComponent = 0 \<and> selectedFile initialComponent = None
    \<and> uploadState initialComponent = None \<and> errorMessage initialComponent = None"
  using assms
  by (simp add: ModulesComponent_abortUpload_def abortUploadRequest_def Let_def
        resetUploadState_initial)
    (simp add: initialComponent_def)

theorem abortUpload_resets_witness:
  "ModulesComponent_abortUpload (envWithPut (Inr None))
      \<lparr>uploading = True, progress = 50, errorMessage = None, isPaused = True,
       selectedFile = Some \<lparr>file_name = ''a.bin'', file_data = ''abcd'', file_type = ''x''\<rparr>,
       uploadState = Some \<lparr>uploadId = Some ''u1'', fileName = ''a.bin'', fileSize = 4,
         uploadedSize = 2, speed = ''0 KB'', timeRemaining = ''Calculating...''\<rparr>\<rparr> []
     = (initialComponent, [Abort ''u1''])
   \<and> abortReply (envWithPut (Inr None)) [Abort ''u1'']
       = Inl (HttpErrorResponse None ''Service Unavailable'')
   \<and> ModulesComponent_abortUpload envAbortSucceeds
      \<lparr>uploading = True, progress = 50, errorMessage = None, isPaused = True,
       selectedFile = Some \<lparr>file_name = ''a.bin'', file_data = ''abcd'', file_type = ''x''\<rparr>,
       uploadState = Some \<lparr>uploadId = Some ''u1'', fileName = ''a.bin'', fileSize = 4,
         uploadedSize = 2, speed = ''0 KB'', timeRemaining = ''Calculating...''\<rparr>\<rparr> []
     = (initialComponent, [Abort ''u1''])
   \<and> abortReply envAbortSucceeds [Abort ''u1''] = Inr ()"
  using
    abortUpload_resets [where env = "envWithPut (Inr None)" and evs = "[]" and uid = "''u1''"
      and us = "\<lparr>uploadId = Some ''u1'', fileName = ''a.bin'', fileSize = 4,
         uploadedSize = 2, speed = ''0 KB'', timeRemaining = ''Calculating...''\<rparr>"
      and st = "\<lparr>uploading = True, progress = 50, errorMessage = None, isPaused = True,
       selectedFile = Some \<lparr>file_name = ''a.bin'', file_data = ''abcd'', file_type = ''x''\<rparr>,
       uploadState = Some \<lparr>uploadId = Some ''u1'', fileName = ''a.bin'', fileSize = 4,
         uploadedSize = 2, speed = ''0 KB'', timeRemaining = ''Calculating...''\<rparr>\<rparr>"]
    abortUpload_resets [where env = "envAbortSucceeds" and evs = "[]" and uid = "''u1''"
      and us = "\<lparr>uploadId = Some ''u1'', fileName = ''a.bin'', fileSize = 4,
         uploadedSize = 2, speed = ''0 KB'', timeRemaining = ''Calculating...''\<rparr>"
      and st = "\<lparr>uploading = True, progress = 50, errorMessage = None, isPaused = True,
       selectedFile = Some \<lparr>file_name = ''a.bin'', file_data = ''abcd'', file_type = ''x''\<rparr>,
       uploadState = Some \<lparr>uploadId = Some ''u1'', fileName = ''a.bin'', fileSize = 4,
         uploadedSize = 2, speed = ''0 KB'', timeRemaining = ''Calculating...''\<rparr>\<rparr>"]
  by (simp add: envWithPut_def envAbortSucceeds_def)


section \<open>Runs of the orchestrators\<close>

text \<open>
  Claim C1 states that \<open>uploadFile\<close> completes the upload with the receipts of all waves.
  \<open>UploadService.uploadFile\<close> returns the file URL, but it keeps only the receipts of the
  last wave: for a file of four bytes uploaded in two waves of one part each, the request
  that completes the upload carries the receipt of part 2 alone.
\<close>

theorem UploadService_uploadFile_completes_with_last_wave:
  "UploadService_uploadFile (waveServer 2 twoWavesOfOne None) fileABCD []
     = Some (Inr ''https://files.example/f'',
         [Initiate ''a.bin'' 4 ''x'', NextBatch ''u1'' [],
          Put ''p1'' \<lparr>blob_data = ''ab'', blob_type = ''x''\<rparr>,
          NextBatch ''u1'' [\<lparr>partNumber = 1, etag = ''etag-p1''\<rparr>],
          Put ''p2'' \<lparr>blob_data = ''cd'', blob_type = ''x''\<rparr>,
          NextBatch ''u1'' [\<lparr>partNumber = 2, etag = ''etag-p2''\<rparr>],
          Complete ''u1'' [\<lparr>partNumber = 2, etag = ''etag-p2''\<rparr>]])"
  by code_simp

text \<open>
  A run of \<open>ModulesComponent.uploadFile\<close> for a file of eight bytes in two waves of two
  parts: the requests for the next batch and the final request carry the receipts of all
  waves so far.
\<close>

lemma ModulesComponent_uploadFile_two_waves:
  "ModulesComponent_uploadFile (waveServer 2 twoWavesOfTwo None) fileABCDEFGH
       (handleFileSelection initialComponent fileABCDEFGH) []
     = Some (initialComponent,
         [Initiate ''b.bin'' 8 ''x'', NextBatch ''u1'' [],
          Put ''p1'' \<lparr>blob_data = ''ab'', blob_type = ''x''\<rparr>, UploadedSize 2,
          Put ''p2'' \<lparr>blob_data = ''cd'', blob_type = ''x''\<rparr>, UploadedSize 4,
          NextBatch ''u1''
            [\<lparr>partNumber = 1, etag = ''etag-p1''\<rparr>, \<lparr>partNumber = 2, etag = ''etag-p2''\<rparr>],
          Put ''p3'' \<lparr>blob_data = ''ef'', blob_type = ''x''\<rparr>, UploadedSize 2,
          Put ''p4'' \<lparr>blob_data = ''gh'', blob_type = ''x''\<rparr>, UploadedSize 4,
          NextBatch ''u1''
            [\<lparr>partNumber = 1, etag = ''etag-p1''\<rparr>, \<lparr>partNumber = 2, etag = ''etag-p2''\<rparr>,
             \<lparr>partNumber = 3, etag = ''etag-p3''\<rparr>, \<lparr>partNumber = 4, etag = ''etag-p4''\<rparr>],
          Complete ''u1''
            [\<lparr>partNumber = 1, etag = ''etag-p1''\<rparr>, \<lparr>partNumber = 2, etag = ''etag-p2''\<rparr>,
             \<lparr>partNumber = 3, etag = ''etag-p3''\<rparr>, \<lparr>partNumber = 4, etag = ''etag-p4''\<rparr>]])"
  by code_simp

text \<open>
  Claim C6 states that \<open>uploadedSize\<close> never decreases within a run. \<open>uploadBatch\<close> writes
  the number of receipts of the current wave times the part size: in the run above the
  values written are 2, 4, 2, 4, and the third is smaller than the second.
\<close>

theorem uploadedSize_decreases_between_waves:
  "map_option (\<lambda>r. uploadedSizes (snd r))
     (ModulesComponent_uploadFile (waveServer 2 twoWavesOfTwo None) fileABCDEFGH
        (handleFileSelection initialComponent fileABCDEFGH) [])
     = Some [2, 4, 2, 4]
   \<and> \<not> sorted [2, 4, 2, 4 :: int]"
  by (simp add: ModulesComponent_uploadFile_two_waves)

text \<open>
  Claim C3 states that a resumed run uses the session and the receipts of the paused run.
  Here the user presses pause while part 1 is uploaded; the run stops after the wave with
  the receipt of part 1 confirmed in session \<open>u1\<close>. \<open>resumeUpload\<close> then calls \<open>uploadFile\<close>
  again, which initiates a second session \<open>u2\<close>, asks for its first batch with no receipts
  and uploads part 1 a second time.
\<close>

theorem resumeUpload_starts_a_new_session:
  "ModulesComponent_uploadFile (waveServer 2 twoWavesOfOne (Some 3)) fileABCD
       (handleFileSelection initialComponent fileABCD) []
     = Some (\<lparr>uploading = True, progress = 0, errorMessage = None, isPaused = True,
              selectedFile = Some fileABCD,
              uploadState = Some \<lparr>uploadId = Some ''u1'', fileName = ''a.bin'', fileSize = 4,
                uploadedSize = 2, speed = ''0 KB'', timeRemaining = ''Calculating...''\<rparr>\<rparr>,
         [Initiate ''a.bin'' 4 ''x'', NextBatch ''u1'' [],
          Put ''p1'' \<lparr>blob_data = ''ab'', blob_type = ''x''\<rparr>, UploadedSize 2,
          NextBatch ''u1'' [\<lparr>partNumber = 1, etag = ''etag-p1''\<rparr>]])
   \<and> resumeUpload (waveServer 2 twoWavesOfOne (Some 3))
        \<lparr>uploading = True, progress = 0, errorMessage = None, isPaused = True,
         selectedFile = Some fileABCD,
         uploadState = Some \<lparr>uploadId = Some ''u1'', fileName = ''a.bin'', fileSize = 4,
           uploadedSize = 2, speed = ''0 KB'', timeRemaining = ''Calculating...''\<rparr>\<rparr>
        [Initiate ''a.bin'' 4 ''x'', NextBatch ''u1'' [],
         Put ''p1'' \<lparr>blob_data = ''ab'', blob_type = ''x''\<rparr>, UploadedSize 2,
         NextBatch ''u1'' [\<lparr>partNumber = 1, etag = ''etag-p1''\<rparr>]]
     = Some (initialComponent,
         [Initiate ''a.bin'' 4 ''x'', NextBatch ''u1'' [],
          Put ''p1'' \<lparr>blob_data = ''ab'', blob_type = ''x''\<rparr>, UploadedSize 2,
          NextBatch ''u1'' [\<lparr>partNumber = 1, etag = ''etag-p1''\<rparr>],
          Initiate ''a.bin'' 4 ''x'', NextBatch ''u2'' [],
          Put ''p1'' \<lparr>blob_data = ''ab'', blob_type = ''x''\<rparr>, UploadedSize 2,
          NextBatch ''u2'' [\<lparr>partNumber = 1, etag = ''etag-p1''\<rparr>],
          Put ''p2'' \<lparr>blob_data = ''cd'', blob_type = ''x''\<rparr>, UploadedSize 2,
          NextBatch ''u2''
            [\<lparr>partNumber = 1, etag = ''etag-p1''\<rparr>, \<lparr>partNumber = 2, etag = ''etag-p2''\<rparr>],
          Complete ''u2''
            [\<lparr>partNumber = 1, etag = ''etag-p1''\<rparr>, \<lparr>partNumber = 2, etag = ''etag-p2''\<rparr>]])"
  by code_simp


end
